theory Spec2Isabelle
  imports Complex_Main "HOL-Library.Sublist"
begin

section \<open>Values of the host language\<close>

text \<open>
  The server is TypeScript. A string of the program is modelled as the list of its code
  units, each of them below 256; \<open>number\<close> values (IEEE doubles in the program) are
  modelled as reals, and the two conversions from numbers to text that the program leaves
  to the runtime (\<open>Number.prototype.toString\<close>, \<open>toFixed(3)\<close>) are parameters of
  the functions that use them. A property that is optional, \<open>undefined\<close> or
  \<open>null\<close> in the program is an \<open>option\<close> here, \<open>None\<close> standing for the
  missing value.
\<close>

type_synonym number = real

text \<open>
  Truthiness, as the conditions \<open>if (x)\<close> and the operator \<open>||\<close> test it: the empty
  string and the number 0 are falsy; every array and every object is truthy, and so is
  every value of an enumeration of the schema, a string that is not empty.
  \<open>is_defined\<close> is the test \<open>x !== undefined\<close>.
\<close>

definition truthy_string :: "string option \<Rightarrow> bool" where
  "truthy_string v = (case v of None \<Rightarrow> False | Some s \<Rightarrow> s \<noteq> [])"

definition truthy_object :: "'a option \<Rightarrow> bool" where
  "truthy_object v = (case v of None \<Rightarrow> False | Some _ \<Rightarrow> True)"

definition is_defined :: "'a option \<Rightarrow> bool" where
  "is_defined v = (v \<noteq> None)"

definition or_string :: "string option \<Rightarrow> string \<Rightarrow> string" where
  "or_string v d = (case v of None \<Rightarrow> d | Some s \<Rightarrow> if s = [] then d else s)"

definition or_number :: "number option \<Rightarrow> number \<Rightarrow> number" where
  "or_number v d = (case v of None \<Rightarrow> d | Some x \<Rightarrow> if x = 0 then d else x)"

section \<open>The request: interfaces \<open>SoloditFilters\<close> and \<open>SoloditRequest\<close>\<close>

datatype impact_level = HIGH | MEDIUM | LOW | GAS

datatype reported_value = R30 | R60 | R90 | RAfter | RAlltime

datatype sort_field = Recency | Quality | Rarity

datatype sort_direction = Desc | Asc

text \<open>The wrapper \<open>{ value: string; label?: string }\<close> of the free-text list filters.\<close>

record wrapped =
  wvalue :: string
  wlabel :: "string option"

text \<open>The wrapper \<open>{ value: "30" | ... ; label?: string }\<close> of the key \<open>reported\<close>.\<close>

record reported_filter =
  rvalue :: reported_value
  rlabel :: "string option"

record SoloditFilters =
  "keywords" :: "string option"
  impact :: "impact_level list option"
  firms :: "wrapped list option"
  tags :: "wrapped list option"
  protocol :: "string option"
  protocolCategory :: "wrapped list option"
  forked :: "wrapped list option"
  languages :: "wrapped list option"
  user :: "string option"
  minFinders :: "string option"
  maxFinders :: "string option"
  reported :: "reported_filter option"
  reportedAfter :: "string option"
  qualityScore :: "number option"
  rarityScore :: "number option"
  sortField :: "sort_field option"
  sortDirection :: "sort_direction option"

record SoloditRequest =
  page :: "number option"
  pageSize :: "number option"
  filters :: "SoloditFilters option"

text \<open>
  \<open>Object.keys\<close>: the own properties of an object, in the order of their creation. An
  optional property that was never assigned is not a key. The search handler assigns the
  properties of the filters object in the order of the interface, so the order below is
  the order of creation of every filters object it builds.
\<close>

definition own_key :: "'a option \<Rightarrow> string \<Rightarrow> string list" where
  "own_key v k = (case v of None \<Rightarrow> [] | Some _ \<Rightarrow> [k])"

definition wrapped_keys :: "wrapped \<Rightarrow> string list" where
  "wrapped_keys w = ''value'' # own_key (wlabel w) ''label''"

definition Object_keys :: "SoloditFilters \<Rightarrow> string list" where
  "Object_keys f =
     own_key (keywords f) ''keywords'' @
     own_key (impact f) ''impact'' @
     own_key (firms f) ''firms'' @
     own_key (tags f) ''tags'' @
     own_key (protocol f) ''protocol'' @
     own_key (protocolCategory f) ''protocolCategory'' @
     own_key (forked f) ''forked'' @
     own_key (languages f) ''languages'' @
     own_key (user f) ''user'' @
     own_key (minFinders f) ''minFinders'' @
     own_key (maxFinders f) ''maxFinders'' @
     own_key (reported f) ''reported'' @
     own_key (reportedAfter f) ''reportedAfter'' @
     own_key (qualityScore f) ''qualityScore'' @
     own_key (rarityScore f) ''rarityScore'' @
     own_key (sortField f) ''sortField'' @
     own_key (sortDirection f) ''sortDirection''"

section \<open>The arguments of \<open>search_findings\<close>\<close>

text \<open>
  The input schema of the tool: every parameter is optional. The schema admits any string
  (the empty one too) for the string parameters, any list for the list parameters and the
  numbers from 0 to 5 for the two scores.
\<close>

datatype reported_days = Days30 | Days60 | Days90 | DaysAlltime

fun reported_of :: "reported_days \<Rightarrow> reported_value" where
  "reported_of Days30 = R30"
| "reported_of Days60 = R60"
| "reported_of Days90 = R90"
| "reported_of DaysAlltime = RAlltime"

record search_args =
  arg_keywords :: "string option"
  arg_impact :: "impact_level list option"
  arg_firms :: "string list option"
  arg_tags :: "string list option"
  arg_protocol :: "string option"
  arg_protocolCategory :: "string list option"
  arg_languages :: "string list option"
  arg_user :: "string option"
  arg_minFinders :: "string option"
  arg_maxFinders :: "string option"
  arg_reportedDays :: "reported_days option"
  arg_qualityScore :: "number option"
  arg_rarityScore :: "number option"
  arg_sortField :: "sort_field option"
  arg_sortDirection :: "sort_direction option"
  arg_page :: "number option"
  arg_pageSize :: "number option"

definition no_args :: search_args where
  "no_args = \<lparr> arg_keywords = None, arg_impact = None, arg_firms = None, arg_tags = None,
     arg_protocol = None, arg_protocolCategory = None, arg_languages = None,
     arg_user = None, arg_minFinders = None, arg_maxFinders = None,
     arg_reportedDays = None, arg_qualityScore = None, arg_rarityScore = None,
     arg_sortField = None, arg_sortDirection = None, arg_page = None,
     arg_pageSize = None \<rparr>"

section \<open>Building the request (handler of \<open>search_findings\<close>)\<close>

definition empty_filters :: SoloditFilters where
  "empty_filters = \<lparr> keywords = None, impact = None, firms = None, tags = None,
     protocol = None, protocolCategory = None, forked = None, languages = None,
     user = None, minFinders = None, maxFinders = None, reported = None,
     reportedAfter = None, qualityScore = None, rarityScore = None, sortField = None,
     sortDirection = None \<rparr>"

definition wrap :: "string \<Rightarrow> wrapped" where
  "wrap s = \<lparr> wvalue = s, wlabel = None \<rparr>"

text \<open>
  One conditional assignment \<open>if (c) filters.k = v\<close>: the object with the property
  written when the condition holds, the object as it was otherwise.
\<close>

definition assign_if :: "bool \<Rightarrow> ('o \<Rightarrow> 'o) \<Rightarrow> 'o \<Rightarrow> 'o" where
  "assign_if c upd obj = (if c then upd obj else obj)"

text \<open>
  The handler starts from the empty object and runs its fifteen conditional assignments
  in this order.
\<close>

definition build_filters :: "search_args \<Rightarrow> SoloditFilters" where
  "build_filters args =
    fold (\<lambda>assign obj. assign obj)
      [assign_if (truthy_string (arg_keywords args))
           (\<lambda>obj. obj \<lparr> keywords := arg_keywords args \<rparr>),
       assign_if (truthy_object (arg_impact args))
           (\<lambda>obj. obj \<lparr> impact := arg_impact args \<rparr>),
       assign_if (truthy_object (arg_firms args))
           (\<lambda>obj. obj \<lparr> firms := map_option (map wrap) (arg_firms args) \<rparr>),
       assign_if (truthy_object (arg_tags args))
           (\<lambda>obj. obj \<lparr> tags := map_option (map wrap) (arg_tags args) \<rparr>),
       assign_if (truthy_string (arg_protocol args))
           (\<lambda>obj. obj \<lparr> protocol := arg_protocol args \<rparr>),
       assign_if (truthy_object (arg_protocolCategory args))
           (\<lambda>obj. obj \<lparr> protocolCategory :=
              map_option (map wrap) (arg_protocolCategory args) \<rparr>),
       assign_if (truthy_object (arg_languages args))
           (\<lambda>obj. obj \<lparr> languages := map_option (map wrap) (arg_languages args) \<rparr>),
       assign_if (truthy_string (arg_user args))
           (\<lambda>obj. obj \<lparr> user := arg_user args \<rparr>),
       assign_if (truthy_string (arg_minFinders args))
           (\<lambda>obj. obj \<lparr> minFinders := arg_minFinders args \<rparr>),
       assign_if (truthy_string (arg_maxFinders args))
           (\<lambda>obj. obj \<lparr> maxFinders := arg_maxFinders args \<rparr>),
       assign_if (truthy_object (arg_reportedDays args))
           (\<lambda>obj. obj \<lparr> reported := map_option
              (\<lambda>d. \<lparr> rvalue = reported_of d, rlabel = None \<rparr>) (arg_reportedDays args) \<rparr>),
       assign_if (is_defined (arg_qualityScore args))
           (\<lambda>obj. obj \<lparr> qualityScore := arg_qualityScore args \<rparr>),
       assign_if (is_defined (arg_rarityScore args))
           (\<lambda>obj. obj \<lparr> rarityScore := arg_rarityScore args \<rparr>),
       assign_if (truthy_object (arg_sortField args))
           (\<lambda>obj. obj \<lparr> sortField := arg_sortField args \<rparr>),
       assign_if (truthy_object (arg_sortDirection args))
           (\<lambda>obj. obj \<lparr> sortDirection := arg_sortDirection args \<rparr>)]
      empty_filters"

definition build_request :: "search_args \<Rightarrow> SoloditRequest" where
  "build_request args =
     (let filters = build_filters args;
          searchRequest = \<lparr> page = Some (or_number (arg_page args) 1),
                            pageSize = Some (or_number (arg_pageSize args) 20),
                            filters = None \<rparr>
      in if length (Object_keys filters) > 0
         then searchRequest \<lparr> filters := Some filters \<rparr>
         else searchRequest)"


subsection \<open>The parameters a caller supplied\<close>

text \<open>
  The vocabulary of the specification: a filter parameter is \<^emph>\<open>set\<close> when the caller
  supplied it, whatever its value. \<open>set_fields\<close> lists the parameters that are set, each
  under the name of the filter key it is copied to (\<open>reportedDays\<close> goes to
  \<open>reported\<close>), and \<open>blank_fields\<close> lists the string parameters that were supplied
  as the empty string.
\<close>

definition blank :: "string option \<Rightarrow> string \<Rightarrow> string list" where
  "blank v k = (if v = Some [] then [k] else [])"

definition set_fields :: "search_args \<Rightarrow> string list" where
  "set_fields a =
     own_key (arg_keywords a) ''keywords'' @
     own_key (arg_impact a) ''impact'' @
     own_key (arg_firms a) ''firms'' @
     own_key (arg_tags a) ''tags'' @
     own_key (arg_protocol a) ''protocol'' @
     own_key (arg_protocolCategory a) ''protocolCategory'' @
     own_key (arg_languages a) ''languages'' @
     own_key (arg_user a) ''user'' @
     own_key (arg_minFinders a) ''minFinders'' @
     own_key (arg_maxFinders a) ''maxFinders'' @
     own_key (arg_reportedDays a) ''reported'' @
     own_key (arg_qualityScore a) ''qualityScore'' @
     own_key (arg_rarityScore a) ''rarityScore'' @
     own_key (arg_sortField a) ''sortField'' @
     own_key (arg_sortDirection a) ''sortDirection''"

definition blank_fields :: "search_args \<Rightarrow> string list" where
  "blank_fields a =
     blank (arg_keywords a) ''keywords'' @
     blank (arg_protocol a) ''protocol'' @
     blank (arg_user a) ''user'' @
     blank (arg_minFinders a) ''minFinders'' @
     blank (arg_maxFinders a) ''maxFinders''"

text \<open>
  What the specification asks of a wrapped list: it has the length of the input, the
  element at each index carries the input element of that index as its \<open>value\<close>, and
  \<open>value\<close> is its only key.
\<close>

definition wrapped_from :: "string list \<Rightarrow> wrapped list option \<Rightarrow> bool" where
  "wrapped_from xs out =
     (case out of
        None \<Rightarrow> False
      | Some ys \<Rightarrow> length ys = length xs \<and>
          (\<forall>i \<in> {..<length xs}.
             wvalue (ys ! i) = xs ! i \<and> wrapped_keys (ys ! i) = [''value'']))"

definition example_args :: search_args where
  "example_args = no_args \<lparr> arg_firms := Some [''Cyfrin'', ''Sherlock''], arg_tags := Some [],
     arg_protocolCategory := Some [''DeFi''],
     arg_languages := Some [''Rust'', ''Cairo'', []] \<rparr>"

section \<open>Text\<close>

definition newline :: char where
  "newline = CHR 0x0A"

text \<open>
  The code units below 256 that \<open>String.prototype.trim\<close> removes: tab, line feed,
  vertical tab, form feed, carriage return, space and the no-break space.
\<close>

definition white_space :: "char list" where
  "white_space = [CHR 0x09, CHR 0x0A, CHR 0x0B, CHR 0x0C, CHR 0x0D, CHR 0x20, CHR 0xA0]"

definition is_white :: "char \<Rightarrow> bool" where
  "is_white c = (c \<in> set white_space)"

definition trim :: "string \<Rightarrow> string" where
  "trim s = rev (dropWhile is_white (rev (dropWhile is_white s)))"

text \<open>\<open>Array.prototype.join\<close> on an array of strings.\<close>

fun join :: "string \<Rightarrow> string list \<Rightarrow> string" where
  "join sep [] = []"
| "join sep [x] = x"
| "join sep (x # y # ys) = x @ sep @ join sep (y # ys)"

text \<open>
  A multi-line template literal, given by its lines: the text between two line breaks of
  the literal is one element, so a literal that opens and closes with a line break has an
  empty first and an empty last line.
\<close>

definition template :: "string list \<Rightarrow> string" where
  "template ls = join [newline] ls"

text \<open>The decimal digits of a natural number, as a template literal prints an integer.\<close>

definition digit :: "nat \<Rightarrow> char" where
  "digit d = ''0123456789'' ! d"

fun decimal :: "nat \<Rightarrow> string" where
  "decimal n = (if n < 10 then [digit n] else decimal (n div 10) @ [digit (n mod 10)])"

declare decimal.simps [simp del]

section \<open>Errors\<close>

text \<open>
  What a handler can throw: an \<open>Error\<close> with its message, the \<open>TypeError\<close> of a
  property read on \<open>null\<close> or \<open>undefined\<close> (or of an object that has no text
  form), the rejection of \<open>fetch\<close> and the rejection of \<open>response.json()\<close>.
\<close>

datatype error = Error string | TypeError | FetchRejected | JsonRejected

definition bind_result :: "error + 'a \<Rightarrow> ('a \<Rightarrow> error + 'b) \<Rightarrow> error + 'b" where
  "bind_result r k = (case r of Inl e \<Rightarrow> Inl e | Inr x \<Rightarrow> k x)"

section \<open>The response: interfaces \<open>SoloditFinding\<close> and \<open>SoloditResponse\<close>\<close>

text \<open>
  The fields \<open>id\<close> and \<open>impact\<close> of a finding are \<open>finding_id\<close> and
  \<open>finding_impact\<close> here, the \<open>title\<close> of a tag is \<open>tag_title\<close> and the
  \<open>pageSize\<close> of the metadata is \<open>meta_pageSize\<close>. The interface declares the two
  nested lists as arrays; a response is not validated when it arrives, so the lists are
  optional here, \<open>None\<close> being a list that is \<open>null\<close> or absent.
\<close>

record warden =
  handle :: string

record issue_finder =
  wardens_warden :: warden

record tag_info =
  tag_title :: string

record issue_tagscore =
  tags_tag :: tag_info

record SoloditFinding =
  finding_id :: string
  slug :: string
  title :: string
  content :: string
  summary :: "string option"
  finding_impact :: impact_level
  quality_score :: number
  general_score :: number
  report_date :: "string option"
  firm_name :: "string option"
  protocol_name :: "string option"
  finders_count :: number
  source_link :: "string option"
  issues_issue_finders :: "issue_finder list option"
  issues_issuetagscore :: "issue_tagscore list option"

record response_metadata =
  totalResults :: number
  currentPage :: number
  meta_pageSize :: number
  totalPages :: number
  elapsed :: number

record rate_limit =
  limit :: number
  remaining :: number
  reset :: number

record SoloditResponse =
  findings :: "SoloditFinding list"
  metadata :: response_metadata
  rateLimit :: rate_limit

section \<open>Formatting a finding\<close>

fun impact_text :: "impact_level \<Rightarrow> string" where
  "impact_text HIGH = ''HIGH''"
| "impact_text MEDIUM = ''MEDIUM''"
| "impact_text LOW = ''LOW''"
| "impact_text GAS = ''GAS''"

text \<open>
  \<open>finding.issues_issuetagscore.map((t) => t.tags_tag.title).join(", ")\<close> and its twin
  for the finders: the read of \<open>map\<close> on a list that is missing throws.
\<close>

definition tags_text :: "SoloditFinding \<Rightarrow> error + string" where
  "tags_text finding =
     (case issues_issuetagscore finding of
        None \<Rightarrow> Inl TypeError
      | Some ts \<Rightarrow> Inr (join '', '' (map (\<lambda>t. tag_title (tags_tag t)) ts)))"

definition finders_text :: "SoloditFinding \<Rightarrow> error + string" where
  "finders_text finding =
     (case issues_issue_finders finding of
        None \<Rightarrow> Inl TypeError
      | Some fs \<Rightarrow> Inr (join '', '' (map (\<lambda>f. handle (wardens_warden f)) fs)))"

text \<open>
  The field table of \<open>formatFinding\<close>, one element for each line of the template from
  \<open>**ID:**\<close> to \<open>**Source:**\<close>. \<open>ns\<close> is the runtime's conversion of a number to
  text.
\<close>

definition field_rows :: "(number \<Rightarrow> string) \<Rightarrow> SoloditFinding \<Rightarrow> string \<Rightarrow> string \<Rightarrow> string list" where
  "field_rows ns finding tags_joined finders_joined =
     [''**ID:** '' @ finding_id finding,
      ''**Slug:** '' @ slug finding,
      ''**Protocol:** '' @ or_string (protocol_name finding) ''N/A'',
      ''**Audit Firm:** '' @ or_string (firm_name finding) ''N/A'',
      ''**Quality Score:** '' @ ns (quality_score finding) @ ''/5'',
      ''**Rarity Score:** '' @ ns (general_score finding) @ ''/5'',
      ''**Report Date:** '' @ or_string (report_date finding) ''N/A'',
      ''**Finders:** '' @ or_string (Some finders_joined) ''N/A'' @
         '' ('' @ ns (finders_count finding) @ '' total)'',
      ''**Tags:** '' @ or_string (Some tags_joined) ''N/A'',
      ''**Source:** '' @ or_string (source_link finding) ''N/A'']"

definition list_rows :: "(number \<Rightarrow> string) \<Rightarrow> SoloditFinding \<Rightarrow> error + string list" where
  "list_rows ns finding =
     bind_result (tags_text finding) (\<lambda>tags_joined.
     bind_result (finders_text finding) (\<lambda>finders_joined.
     Inr (field_rows ns finding tags_joined finders_joined)))"

text \<open>\<open>finding.summary || finding.content.substring(0, 500) + "..."\<close>\<close>

definition body_excerpt :: "SoloditFinding \<Rightarrow> string" where
  "body_excerpt finding = or_string (summary finding) (take 500 (content finding) @ ''...'')"

definition formatFinding :: "(number \<Rightarrow> string) \<Rightarrow> SoloditFinding \<Rightarrow> error + string" where
  "formatFinding ns finding =
     bind_result (list_rows ns finding) (\<lambda>rows.
     Inr (trim (template
       ([[],
         ''## ['' @ impact_text (finding_impact finding) @ ''] '' @ title finding,
         []] @
        rows @
        [[],
         body_excerpt finding,
         [],
         ''---'',
         []]))))"

text \<open>
  The field table of the detail view in \<open>get_finding_by_id\<close>, from \<open>**ID:**\<close> to
  \<open>**Source:**\<close>. Its template evaluates the finders before the tags.
\<close>

definition detail_field_rows :: "(number \<Rightarrow> string) \<Rightarrow> SoloditFinding \<Rightarrow> string \<Rightarrow> string \<Rightarrow> string list" where
  "detail_field_rows ns finding finders_joined tags_joined =
     [''**ID:** '' @ finding_id finding,
      ''**Slug:** '' @ slug finding,
      ''**Impact:** '' @ impact_text (finding_impact finding),
      ''**Protocol:** '' @ or_string (protocol_name finding) ''N/A'',
      ''**Audit Firm:** '' @ or_string (firm_name finding) ''N/A'',
      ''**Quality Score:** '' @ ns (quality_score finding) @ ''/5'',
      ''**Rarity Score:** '' @ ns (general_score finding) @ ''/5'',
      ''**Report Date:** '' @ or_string (report_date finding) ''N/A'',
      ''**Finders:** '' @ or_string (Some finders_joined) ''N/A'' @
         '' ('' @ ns (finders_count finding) @ '' total)'',
      ''**Tags:** '' @ or_string (Some tags_joined) ''N/A'',
      ''**Source:** '' @ or_string (source_link finding) ''N/A'']"

definition detail_rows :: "(number \<Rightarrow> string) \<Rightarrow> SoloditFinding \<Rightarrow> error + string list" where
  "detail_rows ns finding =
     bind_result (finders_text finding) (\<lambda>finders_joined.
     bind_result (tags_text finding) (\<lambda>tags_joined.
     Inr (detail_field_rows ns finding finders_joined tags_joined)))"

definition formatDetail :: "(number \<Rightarrow> string) \<Rightarrow> SoloditFinding \<Rightarrow> error + string" where
  "formatDetail ns finding =
     bind_result (detail_rows ns finding) (\<lambda>rows.
     Inr (trim (template
       ([[],
         ''# '' @ title finding,
         []] @
        rows @
        [[],
         ''---'',
         [],
         ''## Content'',
         [],
         content finding,
         []]))))"


subsection \<open>Vocabulary for the properties of the formatter\<close>

text \<open>The labels of the ten rows of the field table of \<open>formatFinding\<close>.\<close>

definition field_labels :: "string list" where
  "field_labels =
     [''**ID:** '', ''**Slug:** '', ''**Protocol:** '', ''**Audit Firm:** '',
      ''**Quality Score:** '', ''**Rarity Score:** '', ''**Report Date:** '',
      ''**Finders:** '', ''**Tags:** '', ''**Source:** '']"

text \<open>
  What \<open>trim\<close> removes at the end of a text, and the labels of the eleven rows of
  the field table of the detail view.
\<close>

definition trim_end :: "string \<Rightarrow> string" where
  "trim_end s = rev (dropWhile is_white (rev s))"

definition detail_labels :: "string list" where
  "detail_labels =
     [''**ID:** '', ''**Slug:** '', ''**Impact:** '', ''**Protocol:** '', ''**Audit Firm:** '',
      ''**Quality Score:** '', ''**Rarity Score:** '', ''**Report Date:** '',
      ''**Finders:** '', ''**Tags:** '', ''**Source:** '']"

text \<open>The heading of a block of the list view.\<close>

definition list_heading :: "SoloditFinding \<Rightarrow> string" where
  "list_heading finding =
     ''## ['' @ impact_text (finding_impact finding) @ ''] '' @ title finding"

text \<open>
  The text of a number that is a natural number, which is what the runtime prints for
  it; the examples below use no other numbers.
\<close>

definition whole_number_text :: "number \<Rightarrow> string" where
  "whole_number_text x = decimal (nat \<lfloor>x\<rfloor>)"

definition example_finding :: SoloditFinding where
  "example_finding =
     \<lparr> finding_id = ''101'', slug = ''vault-reentrancy'', title = ''Reentrancy in vault'',
       content = ''abc'', summary = None, finding_impact = HIGH, quality_score = 4,
       general_score = 3, report_date = None, firm_name = Some ''Cyfrin'',
       protocol_name = None, finders_count = 0, source_link = None,
       issues_issue_finders = Some [], issues_issuetagscore = Some [] \<rparr>"

section \<open>The remote service\<close>

text \<open>
  A JSON value, as \<open>response.json()\<close> yields it. An object is the list of its
  properties, one entry for each key.
\<close>

datatype json =
    JNull
  | JBool bool
  | JNum number
  | JStr string
  | JArr "json list"
  | JObj "(string \<times> json) list"

text \<open>
  The read \<open>errorData.message\<close>: it throws on \<open>null\<close>, finds the property of an
  object and is \<open>undefined\<close> on every other value.
\<close>

fun read_message :: "json \<Rightarrow> error + json option" where
  "read_message JNull = Inl TypeError"
| "read_message (JObj props) = Inr (map_of props ''message'')"
| "read_message (JBool b) = Inr None"
| "read_message (JNum x) = Inr None"
| "read_message (JStr s) = Inr None"
| "read_message (JArr xs) = Inr None"

fun truthy_json :: "json \<Rightarrow> bool" where
  "truthy_json JNull = False"
| "truthy_json (JBool b) = b"
| "truthy_json (JNum x) = (x \<noteq> 0)"
| "truthy_json (JStr s) = (s \<noteq> [])"
| "truthy_json (JArr xs) = True"
| "truthy_json (JObj props) = True"

text \<open>
  The text a template literal gives a JSON value. An array is the texts of its elements
  joined by commas, \<open>null\<close> elements giving the empty text; an object is
  \<open>[object Object]\<close>, unless a property of its own hides \<open>toString\<close>: then the
  conversion throws.
\<close>

fun to_text :: "(number \<Rightarrow> string) \<Rightarrow> json \<Rightarrow> error + string"
  and elements_text :: "(number \<Rightarrow> string) \<Rightarrow> json list \<Rightarrow> error + string list" where
  "to_text ns JNull = Inr ''null''"
| "to_text ns (JBool b) = Inr (if b then ''true'' else ''false'')"
| "to_text ns (JNum x) = Inr (ns x)"
| "to_text ns (JStr s) = Inr s"
| "to_text ns (JArr xs) =
     (case elements_text ns xs of Inl e \<Rightarrow> Inl e | Inr ts \<Rightarrow> Inr (join '','' ts))"
| "to_text ns (JObj props) =
     (if ''toString'' \<in> set (map fst props) then Inl TypeError else Inr ''[object Object]'')"
| "elements_text ns [] = Inr []"
| "elements_text ns (x # xs) =
     (case (if x = JNull then Inr [] else to_text ns x) of
        Inl e \<Rightarrow> Inl e
      | Inr t \<Rightarrow> (case elements_text ns xs of Inl e \<Rightarrow> Inl e | Inr ts \<Rightarrow> Inr (t # ts)))"

text \<open>
  An HTTP response. Its body is read once, by \<open>response.json()\<close>: on the error path as
  a value of any shape (\<open>json_any\<close>), on the success path at the declared type
  \<open>SoloditResponse\<close> (\<open>json_typed\<close>); \<open>None\<close> is a body that does not parse.
\<close>

record http_response =
  ok :: bool
  status :: nat
  statusText :: string
  json_any :: "json option"
  json_typed :: "SoloditResponse option"

text \<open>One call of \<open>fetch\<close>: the address, the method, the two headers and the body.\<close>

record fetch_call =
  url :: string
  http_method :: string
  content_type :: string
  x_cyfrin_api_key :: string
  body :: SoloditRequest

datatype fetch_result = Rejected | Resolved http_response

text \<open>
  What the program takes from its surroundings: the environment variable
  \<open>SOLODIT_API_KEY\<close>, the answer of the network to a call, and the two conversions
  of numbers to text.
\<close>

record environment =
  env_SOLODIT_API_KEY :: "string option"
  fetch :: "fetch_call \<Rightarrow> fetch_result"
  number_text :: "number \<Rightarrow> string"
  toFixed3 :: "number \<Rightarrow> string"

definition SOLODIT_API_BASE_URL :: string where
  "SOLODIT_API_BASE_URL = ''https://solodit.cyfrin.io/api/v1/solodit''"

definition SOLODIT_API_KEY :: "environment \<Rightarrow> string" where
  "SOLODIT_API_KEY env = or_string (env_SOLODIT_API_KEY env) []"

definition key_missing_message :: string where
  "key_missing_message =
     ''SOLODIT_API_KEY environment variable is not set. Please set it to use the Solodit API.''"

definition the_call :: "environment \<Rightarrow> SoloditRequest \<Rightarrow> fetch_call" where
  "the_call env request =
     \<lparr> url = SOLODIT_API_BASE_URL @ ''/findings'',
       http_method = ''POST'',
       content_type = ''application/json'',
       x_cyfrin_api_key = SOLODIT_API_KEY env,
       body = request \<rparr>"

text \<open>
  \<open>errorData.message || response.statusText\<close>, then its text in the message of the
  error.
\<close>

definition error_detail :: "(number \<Rightarrow> string) \<Rightarrow> json option \<Rightarrow> string \<Rightarrow> error + string" where
  "error_detail ns message status_text =
     (case message of
        None \<Rightarrow> Inr status_text
      | Some m \<Rightarrow> if truthy_json m then to_text ns m else Inr status_text)"

definition api_error :: "(number \<Rightarrow> string) \<Rightarrow> http_response \<Rightarrow> error" where
  "api_error ns response =
     (let errorData = (case json_any response of None \<Rightarrow> JObj [] | Some j \<Rightarrow> j)
      in case read_message errorData of
           Inl e \<Rightarrow> e
         | Inr message \<Rightarrow>
            (case error_detail ns message (statusText response) of
               Inl e \<Rightarrow> e
             | Inr detail \<Rightarrow>
                Error (''Solodit API error ('' @ decimal (status response) @ ''): '' @ detail)))"

text \<open>
  \<open>searchSoloditFindings\<close>. The calls that went out to the network are a log, passed
  in and returned: a call is appended when \<open>fetch\<close> is invoked.
\<close>

definition searchSoloditFindings ::
    "environment \<Rightarrow> SoloditRequest \<Rightarrow> fetch_call list \<Rightarrow> (error + SoloditResponse) \<times> fetch_call list" where
  "searchSoloditFindings env request net =
     (if SOLODIT_API_KEY env = [] then (Inl (Error key_missing_message), net)
      else
        (let call = the_call env request;
             net' = net @ [call]
         in case fetch env call of
              Rejected \<Rightarrow> (Inl FetchRejected, net')
            | Resolved response \<Rightarrow>
               if \<not> ok response then (Inl (api_error (number_text env) response), net')
               else (case json_typed response of
                       None \<Rightarrow> (Inl JsonRejected, net')
                     | Some r \<Rightarrow> (Inr r, net'))))"

section \<open>The two tools\<close>

fun format_all :: "(number \<Rightarrow> string) \<Rightarrow> SoloditFinding list \<Rightarrow> error + string list" where
  "format_all ns [] = Inr []"
| "format_all ns (f # fs) =
     bind_result (formatFinding ns f) (\<lambda>t.
     bind_result (format_all ns fs) (\<lambda>ts. Inr (t # ts)))"

definition search_summary :: "environment \<Rightarrow> SoloditResponse \<Rightarrow> string \<Rightarrow> string" where
  "search_summary env response formattedFindings =
     trim (template
       [[],
        ''# Solodit Search Results'',
        [],
        ''**Total Results:** '' @ number_text env (totalResults (metadata response)),
        ''**Page:** '' @ number_text env (currentPage (metadata response)) @ '' of '' @
           number_text env (totalPages (metadata response)),
        ''**Results on this page:** '' @ decimal (length (findings response)),
        ''**Query Time:** '' @ toFixed3 env (elapsed (metadata response)) @ ''s'',
        ''**Rate Limit:** '' @ number_text env (remaining (rateLimit response)) @ ''/'' @
           number_text env (limit (rateLimit response)) @ '' remaining'',
        [],
        ''---'',
        [],
        formattedFindings,
        []])"

definition search_findings ::
    "environment \<Rightarrow> search_args \<Rightarrow> fetch_call list \<Rightarrow> (error + string) \<times> fetch_call list" where
  "search_findings env args net =
     (let searchRequest = build_request args;
          (result, net') = searchSoloditFindings env searchRequest net
      in case result of
           Inl e \<Rightarrow> (Inl e, net')
         | Inr response \<Rightarrow>
            (bind_result (format_all (number_text env) (findings response)) (\<lambda>blocks.
               Inr (search_summary env response (join [newline, newline] blocks))),
             net'))"

definition get_finding_request :: "string \<Rightarrow> SoloditRequest" where
  "get_finding_request kw =
     \<lparr> page = Some 1, pageSize = Some 1,
       filters = Some (empty_filters \<lparr> keywords := Some kw \<rparr>) \<rparr>"

definition not_found :: "string \<Rightarrow> string" where
  "not_found kw = ''No finding found with ID or slug: '' @ kw"

text \<open>
  \<open>get_finding_by_id\<close>. The second test of the handler, \<open>if (!finding)\<close>, never
  holds for the first element of a list of findings, which is an object.
\<close>

definition get_finding_by_id ::
    "environment \<Rightarrow> string \<Rightarrow> fetch_call list \<Rightarrow> (error + string) \<times> fetch_call list" where
  "get_finding_by_id env kw net =
     (let searchRequest = get_finding_request kw;
          (result, net') = searchSoloditFindings env searchRequest net
      in case result of
           Inl e \<Rightarrow> (Inl e, net')
         | Inr response \<Rightarrow>
            (case findings response of
               [] \<Rightarrow> (Inr (not_found kw), net')
             | finding # _ \<Rightarrow> (formatDetail (number_text env) finding, net')))"

subsection \<open>Vocabulary for the properties of the remote query\<close>

text \<open>
  An error that carries a status code and a message part, in the words of
  \<open>searchSoloditFindings\<close>; and the JSON values that are objects.
\<close>

definition ApiError :: "nat \<Rightarrow> string \<Rightarrow> error" where
  "ApiError code message = Error (''Solodit API error ('' @ decimal code @ ''): '' @ message)"

fun is_object :: "json \<Rightarrow> bool" where
  "is_object (JObj props) = True"
| "is_object JNull = False"
| "is_object (JBool b) = False"
| "is_object (JNum x) = False"
| "is_object (JStr s) = False"
| "is_object (JArr xs) = False"

subsection \<open>Examples of responses and surroundings\<close>

definition unavailable_response :: http_response where
  "unavailable_response =
     \<lparr> ok = False, status = 503, statusText = ''Service Unavailable'',
       json_any = None, json_typed = None \<rparr>"

definition null_body_response :: http_response where
  "null_body_response =
     \<lparr> ok = False, status = 500, statusText = ''Internal Server Error'',
       json_any = Some JNull, json_typed = None \<rparr>"

definition no_findings :: SoloditResponse where
  "no_findings =
     \<lparr> findings = [],
       metadata = \<lparr> totalResults = 0, currentPage = 1, meta_pageSize = 1,
                    totalPages = 0, elapsed = 0 \<rparr>,
       rateLimit = \<lparr> limit = 20, remaining = 19, reset = 0 \<rparr> \<rparr>"

definition no_findings_response :: http_response where
  "no_findings_response =
     \<lparr> ok = True, status = 200, statusText = ''OK'', json_any = None,
       json_typed = Some no_findings \<rparr>"

text \<open>A response with status 429 and the given body, and one with a single finding.\<close>

definition error_response :: "json option \<Rightarrow> http_response" where
  "error_response b =
     \<lparr> ok = False, status = 429, statusText = ''Too Many Requests'',
       json_any = b, json_typed = None \<rparr>"

definition one_finding :: SoloditResponse where
  "one_finding =
     \<lparr> findings = [example_finding],
       metadata = \<lparr> totalResults = 1, currentPage = 1, meta_pageSize = 1,
                    totalPages = 1, elapsed = 0 \<rparr>,
       rateLimit = \<lparr> limit = 20, remaining = 19, reset = 0 \<rparr> \<rparr>"

definition one_finding_response :: http_response where
  "one_finding_response =
     \<lparr> ok = True, status = 200, statusText = ''OK'', json_any = None,
       json_typed = Some one_finding \<rparr>"

text \<open>
  Surroundings whose network answers every call with the given response; the key is
  the given value of the environment variable.
\<close>

definition example_env :: "string option \<Rightarrow> http_response \<Rightarrow> environment" where
  "example_env key response =
     \<lparr> env_SOLODIT_API_KEY = key,
       fetch = (\<lambda>call. Resolved response),
       number_text = whole_number_text,
       toFixed3 = (\<lambda>x. whole_number_text x @ ''.000'') \<rparr>"

section \<open>Properties of the request builder\<close>

lemma assign_if_fields:
  "assign_if c (keywords_update g0) f = keywords_update (\<lambda>x. if c then g0 x else x) f"
  "assign_if c (impact_update g1) f = impact_update (\<lambda>x. if c then g1 x else x) f"
  "assign_if c (firms_update g2) f = firms_update (\<lambda>x. if c then g2 x else x) f"
  "assign_if c (tags_update g3) f = tags_update (\<lambda>x. if c then g3 x else x) f"
  "assign_if c (protocol_update g4) f = protocol_update (\<lambda>x. if c then g4 x else x) f"
  "assign_if c (protocolCategory_update g5) f = protocolCategory_update (\<lambda>x. if c then g5 x else x) f"
  "assign_if c (languages_update g6) f = languages_update (\<lambda>x. if c then g6 x else x) f"
  "assign_if c (user_update g7) f = user_update (\<lambda>x. if c then g7 x else x) f"
  "assign_if c (minFinders_update g8) f = minFinders_update (\<lambda>x. if c then g8 x else x) f"
  "assign_if c (maxFinders_update g9) f = maxFinders_update (\<lambda>x. if c then g9 x else x) f"
  "assign_if c (reported_update g10) f = reported_update (\<lambda>x. if c then g10 x else x) f"
  "assign_if c (qualityScore_update g11) f = qualityScore_update (\<lambda>x. if c then g11 x else x) f"
  "assign_if c (rarityScore_update g12) f = rarityScore_update (\<lambda>x. if c then g12 x else x) f"
  "assign_if c (sortField_update g13) f = sortField_update (\<lambda>x. if c then g13 x else x) f"
  "assign_if c (sortDirection_update g14) f = sortDirection_update (\<lambda>x. if c then g14 x else x) f"
  by (simp_all add: assign_if_def)


lemma truthy_object_keep: "(if truthy_object v then v else None) = v"
  by (simp add: truthy_object_def split: option.splits)

lemma truthy_object_map: "(if truthy_object v then map_option g v else None) = map_option g v"
  by (simp add: truthy_object_def split: option.splits)

lemma is_defined_keep: "(if is_defined v then v else None) = v"
  by (simp add: is_defined_def)

lemma build_filters_eq:
  "build_filters a = \<lparr>
     keywords = (if truthy_string (arg_keywords a) then arg_keywords a else None),
     impact = arg_impact a,
     firms = map_option (map wrap) (arg_firms a),
     tags = map_option (map wrap) (arg_tags a),
     protocol = (if truthy_string (arg_protocol a) then arg_protocol a else None),
     protocolCategory = map_option (map wrap) (arg_protocolCategory a),
     forked = None,
     languages = map_option (map wrap) (arg_languages a),
     user = (if truthy_string (arg_user a) then arg_user a else None),
     minFinders = (if truthy_string (arg_minFinders a) then arg_minFinders a else None),
     maxFinders = (if truthy_string (arg_maxFinders a) then arg_maxFinders a else None),
     reported = map_option (\<lambda>d. \<lparr> rvalue = reported_of d, rlabel = None \<rparr>) (arg_reportedDays a),
     reportedAfter = None,
     qualityScore = arg_qualityScore a,
     rarityScore = arg_rarityScore a,
     sortField = arg_sortField a,
     sortDirection = arg_sortDirection a \<rparr>"
  by (simp add: build_filters_def assign_if_fields empty_filters_def
      truthy_object_keep truthy_object_map is_defined_keep split del: if_split)

lemma own_key_None: "own_key None k = []"
  by (simp add: own_key_def)

lemma own_key_map_option: "own_key (map_option g v) k = own_key v k"
  by (cases v) (simp_all add: own_key_def)

lemma blank_fields_mem:
  "k \<in> set (blank_fields a) \<longleftrightarrow>
     (k = ''keywords'' \<and> arg_keywords a = Some []) \<or>
     (k = ''protocol'' \<and> arg_protocol a = Some []) \<or>
     (k = ''user'' \<and> arg_user a = Some []) \<or>
     (k = ''minFinders'' \<and> arg_minFinders a = Some []) \<or>
     (k = ''maxFinders'' \<and> arg_maxFinders a = Some [])"
  by (auto simp: blank_fields_def blank_def)

lemma keep_string_key:
  "(k \<in> set (blank_fields a) \<longleftrightarrow> v = Some []) \<Longrightarrow>
   filter (\<lambda>k. k \<notin> set (blank_fields a)) (own_key v k) =
   own_key (if truthy_string v then v else None) k"
  by (cases v) (simp_all add: own_key_def truthy_string_def)

lemma keep_other_key:
  "k \<notin> set (blank_fields a) \<Longrightarrow>
   filter (\<lambda>k. k \<notin> set (blank_fields a)) (own_key v k) = own_key v k"
  by (cases v) (simp_all add: own_key_def)

lemma Object_keys_build_filters:
  "Object_keys (build_filters a) = filter (\<lambda>k. k \<notin> set (blank_fields a)) (set_fields a)"
proof -
  have s: "filter (\<lambda>k. k \<notin> set (blank_fields a)) (own_key (arg_keywords a) ''keywords'') =
           own_key (if truthy_string (arg_keywords a) then arg_keywords a else None) ''keywords''"
    "filter (\<lambda>k. k \<notin> set (blank_fields a)) (own_key (arg_protocol a) ''protocol'') =
           own_key (if truthy_string (arg_protocol a) then arg_protocol a else None) ''protocol''"
    "filter (\<lambda>k. k \<notin> set (blank_fields a)) (own_key (arg_user a) ''user'') =
           own_key (if truthy_string (arg_user a) then arg_user a else None) ''user''"
    "filter (\<lambda>k. k \<notin> set (blank_fields a)) (own_key (arg_minFinders a) ''minFinders'') =
           own_key (if truthy_string (arg_minFinders a) then arg_minFinders a else None) ''minFinders''"
    "filter (\<lambda>k. k \<notin> set (blank_fields a)) (own_key (arg_maxFinders a) ''maxFinders'') =
           own_key (if truthy_string (arg_maxFinders a) then arg_maxFinders a else None) ''maxFinders''"
    by (rule keep_string_key, simp add: blank_fields_mem)+
  have o: "\<And>v::impact_level list option. filter (\<lambda>k. k \<notin> set (blank_fields a)) (own_key v ''impact'') = own_key v ''impact''"
    "\<And>v::string list option. filter (\<lambda>k. k \<notin> set (blank_fields a)) (own_key v ''firms'') = own_key v ''firms''"
    "\<And>v::string list option. filter (\<lambda>k. k \<notin> set (blank_fields a)) (own_key v ''tags'') = own_key v ''tags''"
    "\<And>v::string list option. filter (\<lambda>k. k \<notin> set (blank_fields a)) (own_key v ''protocolCategory'') = own_key v ''protocolCategory''"
    "\<And>v::string list option. filter (\<lambda>k. k \<notin> set (blank_fields a)) (own_key v ''languages'') = own_key v ''languages''"
    "\<And>v::reported_days option. filter (\<lambda>k. k \<notin> set (blank_fields a)) (own_key v ''reported'') = own_key v ''reported''"
    "\<And>v::number option. filter (\<lambda>k. k \<notin> set (blank_fields a)) (own_key v ''qualityScore'') = own_key v ''qualityScore''"
    "\<And>v::number option. filter (\<lambda>k. k \<notin> set (blank_fields a)) (own_key v ''rarityScore'') = own_key v ''rarityScore''"
    "\<And>v::sort_field option. filter (\<lambda>k. k \<notin> set (blank_fields a)) (own_key v ''sortField'') = own_key v ''sortField''"
    "\<And>v::sort_direction option. filter (\<lambda>k. k \<notin> set (blank_fields a)) (own_key v ''sortDirection'') = own_key v ''sortDirection''"
    by (rule keep_other_key, simp add: blank_fields_mem)+
  show ?thesis
    by (simp add: Object_keys_def set_fields_def build_filters_eq s o own_key_None
        own_key_map_option split del: if_split)
qed


lemma filters_build_request:
  "filters (build_request a) =
     (if Object_keys (build_filters a) = [] then None else Some (build_filters a))"
  by (simp add: build_request_def Let_def)

subsection \<open>Presence of the key \<open>filters\<close>\<close>

text \<open>
  Claim C1, as the code has it. When no filter parameter is set, the request has no
  \<open>filters\<close> key. When at least one filter parameter is set to a value other than the
  empty string, the \<open>filters\<close> key is present and holds the object that was built.
  (Empty lists, the score 0 and every value of an enumeration count: only an empty
  string fails the test of its assignment.)
\<close>

theorem filters_key_presence:
  "(set_fields a = [] \<longrightarrow> filters (build_request a) = None) \<and>
   (k \<in> set (set_fields a) \<and> k \<notin> set (blank_fields a) \<longrightarrow>
      filters (build_request a) = Some (build_filters a))"
  by (auto simp: filters_build_request Object_keys_build_filters filter_empty_conv)

theorem filters_key_presence_witness:
  "set_fields no_args = [] \<and> filters (build_request no_args) = None \<and>
   ''impact'' \<in> set (set_fields (no_args \<lparr> arg_impact := Some [] \<rparr>)) \<and>
   ''impact'' \<notin> set (blank_fields (no_args \<lparr> arg_impact := Some [] \<rparr>)) \<and>
   filters (build_request (no_args \<lparr> arg_impact := Some [] \<rparr>)) =
     Some (build_filters (no_args \<lparr> arg_impact := Some [] \<rparr>))"
proof -
  have e: "set_fields no_args = []"
    by (simp add: set_fields_def no_args_def own_key_def)
  have i: "''impact'' \<in> set (set_fields (no_args \<lparr> arg_impact := Some [] \<rparr>))"
    by (simp add: set_fields_def no_args_def own_key_def)
  have b: "''impact'' \<notin> set (blank_fields (no_args \<lparr> arg_impact := Some [] \<rparr>))"
    by (simp add: blank_fields_def blank_def no_args_def)
  show ?thesis
    using e i b filters_key_presence [of no_args]
      filters_key_presence [of "no_args \<lparr> arg_impact := Some [] \<rparr>" "''impact''"]
    by blast
qed

text \<open>
  The claim as the specification words it fails: with \<open>keywords\<close> set to the empty
  string, a filter parameter is set and the request still has no \<open>filters\<close> key.
\<close>

theorem blank_keyword_counterexample:
  "set_fields (no_args \<lparr> arg_keywords := Some [] \<rparr>) = [''keywords''] \<and>
   filters (build_request (no_args \<lparr> arg_keywords := Some [] \<rparr>)) = None"
  by (simp add: filters_build_request Object_keys_build_filters set_fields_def
      blank_fields_def blank_def no_args_def own_key_def)

subsection \<open>One parameter, one key\<close>

text \<open>
  Claim C4, as the code has it. When exactly one filter parameter is set, and its value
  is not the empty string, the \<open>filters\<close> object of the request has exactly one key,
  the key of that parameter. The score 0, the string \<open>"0"\<close> of a finder bound and the
  empty list are values like any other.
\<close>

theorem single_field_single_key:
  assumes "set_fields a = [k]" and "k \<notin> set (blank_fields a)"
  shows "filters (build_request a) = Some (build_filters a) \<and>
     Object_keys (build_filters a) = [k]"
  using assms by (simp add: filters_build_request Object_keys_build_filters)

theorem single_field_single_key_witness:
  "set_fields (no_args \<lparr> arg_qualityScore := Some 0 \<rparr>) = [''qualityScore''] \<and>
   ''qualityScore'' \<notin> set (blank_fields (no_args \<lparr> arg_qualityScore := Some 0 \<rparr>)) \<and>
   filters (build_request (no_args \<lparr> arg_qualityScore := Some 0 \<rparr>)) =
     Some (build_filters (no_args \<lparr> arg_qualityScore := Some 0 \<rparr>)) \<and>
   Object_keys (build_filters (no_args \<lparr> arg_qualityScore := Some 0 \<rparr>)) =
     [''qualityScore'']"
proof -
  have s: "set_fields (no_args \<lparr> arg_qualityScore := Some 0 \<rparr>) = [''qualityScore'']"
    by (simp add: set_fields_def no_args_def own_key_def)
  have b: "''qualityScore'' \<notin> set (blank_fields (no_args \<lparr> arg_qualityScore := Some 0 \<rparr>))"
    by (simp add: blank_fields_def blank_def no_args_def)
  from s b single_field_single_key [OF s b] show ?thesis by blast
qed

text \<open>
  With \<open>minFinders\<close> set to the empty string, which the schema admits, exactly one
  filter parameter is set and the request has no \<open>filters\<close> object at all.
\<close>

theorem blank_min_finders_counterexample:
  "set_fields (no_args \<lparr> arg_minFinders := Some [] \<rparr>) = [''minFinders''] \<and>
   filters (build_request (no_args \<lparr> arg_minFinders := Some [] \<rparr>)) = None"
  by (simp add: filters_build_request Object_keys_build_filters set_fields_def
      blank_fields_def blank_def no_args_def own_key_def)


subsection \<open>The free-text lists\<close>

lemma wrapped_from_map: "wrapped_from xs (Some (map wrap xs))"
  by (simp add: wrapped_from_def wrap_def wrapped_keys_def own_key_def)

lemma filters_present:
  "k \<in> set (set_fields a) \<Longrightarrow> k \<notin> set (blank_fields a) \<Longrightarrow>
   filters (build_request a) = Some (build_filters a)"
  by (auto simp: filters_build_request Object_keys_build_filters filter_empty_conv)

lemma list_arg_set:
  "arg_firms a = Some xs \<Longrightarrow> ''firms'' \<in> set (set_fields a)"
  "arg_tags a = Some xs \<Longrightarrow> ''tags'' \<in> set (set_fields a)"
  "arg_protocolCategory a = Some xs \<Longrightarrow> ''protocolCategory'' \<in> set (set_fields a)"
  "arg_languages a = Some xs \<Longrightarrow> ''languages'' \<in> set (set_fields a)"
  by (simp_all add: set_fields_def own_key_def)

lemma list_key_not_blank:
  "''firms'' \<notin> set (blank_fields a)" "''tags'' \<notin> set (blank_fields a)"
  "''protocolCategory'' \<notin> set (blank_fields a)" "''languages'' \<notin> set (blank_fields a)"
  by (simp_all add: blank_fields_mem)

text \<open>
  Claim C6. For each of the four free-text list parameters \<open>firms\<close>, \<open>tags\<close>,
  \<open>protocolCategory\<close> and \<open>languages\<close>: when the caller supplies a list of length N
  (the empty list too), the request has a \<open>filters\<close> object whose list under that key
  has length N, the element at each index being a record whose \<open>value\<close> is the input
  element at that index and whose only key is \<open>value\<close>.
\<close>

theorem free_text_lists_wrapped:
  "(arg_firms a = Some xs \<longrightarrow>
      filters (build_request a) = Some (build_filters a) \<and>
      wrapped_from xs (firms (build_filters a))) \<and>
   (arg_tags a = Some xs \<longrightarrow>
      filters (build_request a) = Some (build_filters a) \<and>
      wrapped_from xs (tags (build_filters a))) \<and>
   (arg_protocolCategory a = Some xs \<longrightarrow>
      filters (build_request a) = Some (build_filters a) \<and>
      wrapped_from xs (protocolCategory (build_filters a))) \<and>
   (arg_languages a = Some xs \<longrightarrow>
      filters (build_request a) = Some (build_filters a) \<and>
      wrapped_from xs (languages (build_filters a)))"
proof (intro conjI impI)
  assume h: "arg_firms a = Some xs"
  show "filters (build_request a) = Some (build_filters a)"
    by (rule filters_present [OF list_arg_set(1) [OF h] list_key_not_blank(1)])
  have "firms (build_filters a) = Some (map wrap xs)"
    by (simp add: build_filters_eq h)
  then show "wrapped_from xs (firms (build_filters a))"
    by (simp add: wrapped_from_map)
next
  assume h: "arg_tags a = Some xs"
  show "filters (build_request a) = Some (build_filters a)"
    by (rule filters_present [OF list_arg_set(2) [OF h] list_key_not_blank(2)])
  have "tags (build_filters a) = Some (map wrap xs)"
    by (simp add: build_filters_eq h)
  then show "wrapped_from xs (tags (build_filters a))"
    by (simp add: wrapped_from_map)
next
  assume h: "arg_protocolCategory a = Some xs"
  show "filters (build_request a) = Some (build_filters a)"
    by (rule filters_present [OF list_arg_set(3) [OF h] list_key_not_blank(3)])
  have "protocolCategory (build_filters a) = Some (map wrap xs)"
    by (simp add: build_filters_eq h)
  then show "wrapped_from xs (protocolCategory (build_filters a))"
    by (simp add: wrapped_from_map)
next
  assume h: "arg_languages a = Some xs"
  show "filters (build_request a) = Some (build_filters a)"
    by (rule filters_present [OF list_arg_set(4) [OF h] list_key_not_blank(4)])
  have "languages (build_filters a) = Some (map wrap xs)"
    by (simp add: build_filters_eq h)
  then show "wrapped_from xs (languages (build_filters a))"
    by (simp add: wrapped_from_map)
qed

theorem free_text_lists_wrapped_witness:
  "arg_firms example_args = Some [''Cyfrin'', ''Sherlock''] \<and>
   arg_tags example_args = Some [] \<and>
   arg_protocolCategory example_args = Some [''DeFi''] \<and>
   arg_languages example_args = Some [''Rust'', ''Cairo'', []] \<and>
   filters (build_request example_args) = Some (build_filters example_args) \<and>
   wrapped_from [''Cyfrin'', ''Sherlock''] (firms (build_filters example_args)) \<and>
   wrapped_from [] (tags (build_filters example_args)) \<and>
   wrapped_from [''DeFi''] (protocolCategory (build_filters example_args)) \<and>
   wrapped_from [''Rust'', ''Cairo'', []] (languages (build_filters example_args))"
proof -
  have h: "arg_firms example_args = Some [''Cyfrin'', ''Sherlock'']"
    "arg_tags example_args = Some []"
    "arg_protocolCategory example_args = Some [''DeFi'']"
    "arg_languages example_args = Some [''Rust'', ''Cairo'', []]"
    by (simp_all add: example_args_def no_args_def)
  from h free_text_lists_wrapped [of example_args "[''Cyfrin'', ''Sherlock'']"]
    free_text_lists_wrapped [of example_args "[]"]
    free_text_lists_wrapped [of example_args "[''DeFi'']"]
    free_text_lists_wrapped [of example_args "[''Rust'', ''Cairo'', []]"]
  show ?thesis
    by blast
qed


section \<open>Properties of the formatter\<close>

lemma join_append:
  "xs \<noteq> [] \<Longrightarrow> ys \<noteq> [] \<Longrightarrow> join sep (xs @ ys) = join sep xs @ sep @ join sep ys"
proof (induction sep xs rule: join.induct)
  case (1 sep)
  then show ?case by simp
next
  case (2 sep x)
  then show ?case by (cases ys) simp_all
next
  case (3 sep x y zs)
  then show ?case by simp
qed

lemma is_white_newline: "is_white newline"
  by (simp add: is_white_def white_space_def newline_def)

lemma trim_framed:
  assumes "s \<noteq> []" and "\<not> is_white (hd s)" and "\<not> is_white (last s)"
  shows "trim (newline # s @ [newline]) = s"
proof -
  from assms(1) obtain c t where s: "s = c # t" by (cases s) auto
  with assms(2) have front: "dropWhile is_white (newline # s @ [newline]) = s @ [newline]"
    by (simp add: is_white_newline)
  from assms(1) have "rev s \<noteq> []" by simp
  then obtain d u where r: "rev s = d # u" by (cases "rev s") auto
  from assms(1) have "hd (rev s) = last s" by (simp add: hd_rev)
  with assms(3) r have "\<not> is_white d" by simp
  with r have "dropWhile is_white (rev (s @ [newline])) = rev s"
    by (simp add: is_white_newline)
  with front show ?thesis by (simp add: trim_def)
qed

lemma not_white_hash: "\<not> is_white CHR ''#''"
  by (simp add: is_white_def white_space_def)

lemma not_white_dash: "\<not> is_white CHR ''-''"
  by (simp add: is_white_def white_space_def)

text \<open>
  The block of a finding whose lists are present, with the two line breaks that
  \<open>trim\<close> removes gone: the heading, an empty line, the field table, an empty line,
  the excerpt, an empty line and the rule.
\<close>

lemma join_Cons: "xs \<noteq> [] \<Longrightarrow> join sep (x # xs) = x @ sep @ join sep xs"
  by (cases xs) simp_all

lemma join_snoc: "xs \<noteq> [] \<Longrightarrow> join sep (xs @ [y]) = join sep xs @ sep @ y"
  using join_append [of xs "[y]" sep] by simp

lemma join_framed: "m \<noteq> [] \<Longrightarrow> join sep ([] # m @ [[]]) = sep @ join sep m @ sep"
  by (simp add: join_Cons join_snoc)

lemma join_first_last:
  "m \<noteq> [] \<Longrightarrow> join sep (h # m @ [d]) = h @ sep @ join sep m @ sep @ d"
  by (simp add: join_Cons join_snoc)

lemma template_framed:
  "template ([[], h, []] @ rows @ [[], b, [], d, []]) =
     newline # template ([h, []] @ rows @ [[], b, [], d]) @ [newline]"
proof -
  have "template ([[], h, []] @ rows @ [[], b, [], d, []]) =
        join [newline] ([] # ([h, []] @ rows @ [[], b, [], d]) @ [[]])"
    by (simp add: template_def)
  also have "\<dots> = [newline] @ join [newline] ([h, []] @ rows @ [[], b, [], d]) @ [newline]"
    by (rule join_framed) simp
  finally show ?thesis by (simp add: template_def)
qed

lemma formatFinding_text:
  assumes "list_rows ns f = Inr rows"
  shows "formatFinding ns f =
     Inr (template ([list_heading f, []] @ rows @ [[], body_excerpt f, [], ''---'']))"
proof -
  let ?core = "template ([list_heading f, []] @ rows @ [[], body_excerpt f, [], ''---''])"
  have "?core = join [newline] (list_heading f # ([] # rows @ [[], body_excerpt f, []]) @ [''---''])"
    by (simp add: template_def)
  also have "\<dots> = list_heading f @ [newline] @
      join [newline] ([] # rows @ [[], body_excerpt f, []]) @ [newline] @ ''---''"
    by (rule join_first_last) simp
  finally have shape: "?core = list_heading f @ [newline] @
      join [newline] ([] # rows @ [[], body_excerpt f, []]) @ [newline] @ ''---''" .
  have ne: "?core \<noteq> []" and h: "hd ?core = CHR ''#''" and l: "last ?core = CHR ''-''"
    unfolding shape by (simp_all add: list_heading_def)
  have t: "trim (newline # ?core @ [newline]) = ?core"
    by (rule trim_framed [OF ne]) (simp_all only: h l not_white_hash not_white_dash not_False_eq_True)
  have "formatFinding ns f =
      Inr (trim (template ([[], list_heading f, []] @ rows @
                           [[], body_excerpt f, [], ''---'', []])))"
    using assms by (simp add: formatFinding_def bind_result_def list_heading_def)
  then show ?thesis
    by (simp only: template_framed t)
qed

lemma list_rows_present:
  assumes "issues_issue_finders f = Some fs" and "issues_issuetagscore f = Some ts"
  shows "list_rows ns f =
     Inr (field_rows ns f (join '', '' (map (\<lambda>t. tag_title (tags_tag t)) ts))
                          (join '', '' (map (\<lambda>f. handle (wardens_warden f)) fs)))"
  using assms by (simp add: list_rows_def tags_text_def finders_text_def bind_result_def)


subsection \<open>The excerpt of a finding without summary\<close>

text \<open>
  Claim C2, as the code has it. For a finding whose summary is null, the excerpt of the
  list view is the first 500 characters of the content followed by the marker
  \<open>...\<close>; so a content of 500 characters or fewer is rendered in full, followed by
  the marker, and that excerpt is the one in the rendered block.
\<close>

theorem excerpt_without_summary:
  assumes "summary f = None"
  shows "body_excerpt f = take 500 (content f) @ ''...'' \<and>
     (length (content f) \<le> 500 \<longrightarrow> body_excerpt f = content f @ ''...'') \<and>
     (\<forall>rows. list_rows ns f = Inr rows \<longrightarrow>
        formatFinding ns f =
          Inr (template ([list_heading f, []] @ rows @
                         [[], take 500 (content f) @ ''...'', [], ''---''])))"
proof -
  have e: "body_excerpt f = take 500 (content f) @ ''...''"
    using assms by (simp add: body_excerpt_def or_string_def)
  show ?thesis
  proof (intro conjI allI impI)
    show "body_excerpt f = take 500 (content f) @ ''...''" by (rule e)
  next
    assume "length (content f) \<le> 500"
    with e show "body_excerpt f = content f @ ''...''" by simp
  next
    fix rows assume "list_rows ns f = Inr rows"
    from formatFinding_text [OF this] e
    show "formatFinding ns f =
          Inr (template ([list_heading f, []] @ rows @
                         [[], take 500 (content f) @ ''...'', [], ''---'']))"
      by simp
  qed
qed

theorem excerpt_without_summary_witness:
  "summary (example_finding \<lparr> content := replicate 500 CHR ''a'' \<rparr>) = None \<and>
   length (content (example_finding \<lparr> content := replicate 500 CHR ''a'' \<rparr>)) \<le> 500 \<and>
   body_excerpt (example_finding \<lparr> content := replicate 500 CHR ''a'' \<rparr>) =
     replicate 500 CHR ''a'' @ ''...''"
proof -
  have s: "summary (example_finding \<lparr> content := replicate 500 CHR ''a'' \<rparr>) = None"
    by (simp add: example_finding_def)
  have l: "length (content (example_finding \<lparr> content := replicate 500 CHR ''a'' \<rparr>)) \<le> 500"
    by simp
  from excerpt_without_summary [OF s] s l show ?thesis
    by simp
qed

text \<open>
  The claim as the specification words it fails for a short content: the content
  \<open>abc\<close> of the example, whose summary is null, is rendered with the marker.
\<close>

theorem short_content_counterexample:
  "summary example_finding = None \<and> length (content example_finding) < 500 \<and>
   body_excerpt example_finding = ''abc...'' \<and>
   body_excerpt example_finding \<noteq> content example_finding"
  by (simp add: example_finding_def body_excerpt_def or_string_def)

subsection \<open>An empty summary\<close>

lemma list_rows_summary: "list_rows ns (f \<lparr> summary := s \<rparr>) = list_rows ns f"
  by (simp add: list_rows_def tags_text_def finders_text_def field_rows_def)

lemma field_rows_labels: "list_all2 prefix field_labels (field_rows ns f ts fs)"
  by (simp add: field_labels_def field_rows_def)

text \<open>
  Claim C10. For a finding whose summary is the empty string, \<open>formatFinding\<close> does not
  render the summary: the excerpt is the first 500 characters of the content with the
  marker, as for a null summary, and the block it returns holds that excerpt between the
  field table and the rule; the whole block is the block of the same finding with a null
  summary.
\<close>

theorem empty_summary_falls_back:
  assumes "summary f = Some []"
  shows "body_excerpt f = take 500 (content f) @ ''...'' \<and>
     body_excerpt f = body_excerpt (f \<lparr> summary := None \<rparr>) \<and>
     formatFinding ns f = formatFinding ns (f \<lparr> summary := None \<rparr>) \<and>
     (\<forall>rows. list_rows ns f = Inr rows \<longrightarrow>
        formatFinding ns f =
          Inr (template ([list_heading f, []] @ rows @
                         [[], take 500 (content f) @ ''...'', [], ''---'']))) \<and>
     (issues_issue_finders f = Some fs \<and> issues_issuetagscore f = Some ts \<longrightarrow>
        (\<exists>rows. list_all2 prefix field_labels rows \<and>
           formatFinding ns f =
             Inr (template ([list_heading f, []] @ rows @
                            [[], take 500 (content f) @ ''...'', [], ''---'']))))"
proof -
  have e: "body_excerpt f = take 500 (content f) @ ''...''"
    using assms by (simp add: body_excerpt_def or_string_def)
  have n: "body_excerpt (f \<lparr> summary := None \<rparr>) = take 500 (content f) @ ''...''"
    by (simp add: body_excerpt_def or_string_def)
  have same: "formatFinding ns f = formatFinding ns (f \<lparr> summary := None \<rparr>)"
    by (simp add: formatFinding_def list_rows_summary e n)
  have block: "formatFinding ns f =
      Inr (template ([list_heading f, []] @ rows @
                     [[], take 500 (content f) @ ''...'', [], ''---'']))"
    if "list_rows ns f = Inr rows" for rows
    using formatFinding_text [OF that] e by simp
  have present: "\<exists>rows. list_all2 prefix field_labels rows \<and>
      formatFinding ns f =
        Inr (template ([list_heading f, []] @ rows @
                       [[], take 500 (content f) @ ''...'', [], ''---'']))"
    if "issues_issue_finders f = Some fs \<and> issues_issuetagscore f = Some ts"
  proof -
    from that have "list_rows ns f =
        Inr (field_rows ns f (join '', '' (map (\<lambda>t. tag_title (tags_tag t)) ts))
                             (join '', '' (map (\<lambda>f. handle (wardens_warden f)) fs)))"
      by (simp add: list_rows_present)
    from block [OF this] field_rows_labels show ?thesis by blast
  qed
  from e n same block present show ?thesis by simp
qed

theorem empty_summary_falls_back_witness:
  "summary (example_finding \<lparr> summary := Some [] \<rparr>) = Some [] \<and>
   issues_issue_finders (example_finding \<lparr> summary := Some [] \<rparr>) = Some [] \<and>
   issues_issuetagscore (example_finding \<lparr> summary := Some [] \<rparr>) = Some [] \<and>
   body_excerpt (example_finding \<lparr> summary := Some [] \<rparr>) = ''abc...'' \<and>
   formatFinding whole_number_text (example_finding \<lparr> summary := Some [] \<rparr>) =
     formatFinding whole_number_text example_finding \<and>
   (\<exists>rows. list_all2 prefix field_labels rows \<and>
      formatFinding whole_number_text (example_finding \<lparr> summary := Some [] \<rparr>) =
        Inr (template ([''## [HIGH] Reentrancy in vault'', []] @ rows @
                       [[], ''abc...'', [], ''---''])))"
proof -
  let ?f = "example_finding \<lparr> summary := Some [] \<rparr>"
  have s: "summary ?f = Some []"
    by simp
  have l: "issues_issue_finders ?f = Some []" "issues_issuetagscore ?f = Some []"
    by (simp_all add: example_finding_def)
  have n: "example_finding \<lparr> summary := None \<rparr> = example_finding"
    by (simp add: example_finding_def)
  have h: "list_heading ?f = ''## [HIGH] Reentrancy in vault''"
    by (simp add: list_heading_def example_finding_def)
  have c: "take 500 (content ?f) @ ''...'' = ''abc...''"
    by (simp add: example_finding_def)
  note t = empty_summary_falls_back [OF s, of whole_number_text "[]" "[]"]
  from t c have b: "body_excerpt ?f = ''abc...''"
    by simp
  from t n have q: "formatFinding whole_number_text ?f =
      formatFinding whole_number_text example_finding"
    by simp
  from t l have "\<exists>rows. list_all2 prefix field_labels rows \<and>
      formatFinding whole_number_text ?f =
        Inr (template ([list_heading ?f, []] @ rows @
                       [[], take 500 (content ?f) @ ''...'', [], ''---'']))"
    by blast
  then have r: "\<exists>rows. list_all2 prefix field_labels rows \<and>
      formatFinding whole_number_text ?f =
        Inr (template ([''## [HIGH] Reentrancy in vault'', []] @ rows @
                       [[], ''abc...'', [], ''---'']))"
    unfolding h c .
  from s l b q r show ?thesis by blast
qed

subsection \<open>Missing and empty lists\<close>

text \<open>
  Claim C9, as the code has it. For a finding whose list of finders and list of tags are
  present, as the interface declares them, \<open>formatFinding\<close> returns a text. Each of the
  ten rows of its field table starts with its label, whatever values are missing; the
  row of the finders reads \<open>N/A\<close> when the list of finders is empty, and the row of the
  tags reads \<open>N/A\<close> when the list of tags is empty.
\<close>

theorem formatter_total_on_lists:
  assumes "issues_issue_finders f = Some fs" and "issues_issuetagscore f = Some ts"
  shows "\<exists>rows.
     formatFinding ns f =
       Inr (template ([list_heading f, []] @ rows @ [[], body_excerpt f, [], ''---''])) \<and>
     list_all2 prefix field_labels rows \<and>
     (fs = [] \<longrightarrow> rows ! 7 = ''**Finders:** N/A ('' @ ns (finders_count f) @ '' total)'') \<and>
     (ts = [] \<longrightarrow> rows ! 8 = ''**Tags:** N/A'')"
proof -
  let ?rows = "field_rows ns f (join '', '' (map (\<lambda>t. tag_title (tags_tag t)) ts))
                               (join '', '' (map (\<lambda>f. handle (wardens_warden f)) fs))"
  have r: "list_rows ns f = Inr ?rows"
    by (rule list_rows_present [OF assms])
  have "fs = [] \<longrightarrow> ?rows ! 7 = ''**Finders:** N/A ('' @ ns (finders_count f) @ '' total)''"
    by (simp add: field_rows_def or_string_def)
  moreover have "ts = [] \<longrightarrow> ?rows ! 8 = ''**Tags:** N/A''"
    by (simp add: field_rows_def or_string_def)
  ultimately show ?thesis
    using formatFinding_text [OF r] field_rows_labels by blast
qed

theorem formatter_total_on_lists_witness:
  "issues_issue_finders example_finding = Some [] \<and>
   issues_issuetagscore example_finding = Some [] \<and>
   (\<exists>rows.
     formatFinding whole_number_text example_finding =
       Inr (template ([''## [HIGH] Reentrancy in vault'', []] @ rows @
                      [[], ''abc...'', [], ''---''])) \<and>
     list_all2 prefix field_labels rows \<and>
     rows ! 7 = ''**Finders:** N/A (0 total)'' \<and>
     rows ! 8 = ''**Tags:** N/A'')"
proof -
  have a: "issues_issue_finders example_finding = Some []"
    and b: "issues_issuetagscore example_finding = Some []"
    by (simp_all add: example_finding_def)
  have h: "list_heading example_finding = ''## [HIGH] Reentrancy in vault''"
    by (simp add: list_heading_def example_finding_def)
  have e: "body_excerpt example_finding = ''abc...''"
    by (simp add: body_excerpt_def or_string_def example_finding_def)
  have n: "whole_number_text (finders_count example_finding) = ''0''"
    by (simp add: whole_number_text_def example_finding_def decimal.simps digit_def)
  from formatter_total_on_lists [OF a b, of whole_number_text] a b show ?thesis
    unfolding h e n by simp
qed

text \<open>
  The claim as the specification words it fails when a list is missing: the formatter
  throws on a finding whose list of finders is null, and on one whose list of tags is.
\<close>

theorem missing_list_counterexample:
  "formatFinding whole_number_text (example_finding \<lparr> issues_issue_finders := None \<rparr>) =
     Inl TypeError \<and>
   formatFinding whole_number_text (example_finding \<lparr> issues_issuetagscore := None \<rparr>) =
     Inl TypeError"
  by (simp add: formatFinding_def list_rows_def tags_text_def finders_text_def
      bind_result_def example_finding_def)

section \<open>Properties of the remote query and of the tools\<close>

lemma search_findings_passes_error:
  "searchSoloditFindings env (build_request args) net = (Inl e, net') \<Longrightarrow>
   search_findings env args net = (Inl e, net')"
  by (simp add: search_findings_def Let_def)

lemma get_finding_passes_error:
  "searchSoloditFindings env (get_finding_request kw) net = (Inl e, net') \<Longrightarrow>
   get_finding_by_id env kw net = (Inl e, net')"
  by (simp add: get_finding_by_id_def Let_def)

lemma search_without_key:
  "SOLODIT_API_KEY env = [] \<Longrightarrow>
   searchSoloditFindings env request net = (Inl (Error key_missing_message), net)"
  by (simp add: searchSoloditFindings_def)

lemma search_not_ok:
  "SOLODIT_API_KEY env \<noteq> [] \<Longrightarrow> fetch env (the_call env request) = Resolved response \<Longrightarrow>
   \<not> ok response \<Longrightarrow>
   searchSoloditFindings env request net =
     (Inl (api_error (number_text env) response), net @ [the_call env request])"
  by (simp add: searchSoloditFindings_def Let_def)

lemma search_ok:
  "SOLODIT_API_KEY env \<noteq> [] \<Longrightarrow> fetch env (the_call env request) = Resolved response \<Longrightarrow>
   ok response \<Longrightarrow> json_typed response = Some r \<Longrightarrow>
   searchSoloditFindings env request net = (Inr r, net @ [the_call env request])"
  by (simp add: searchSoloditFindings_def Let_def)

lemma search_log:
  "snd (searchSoloditFindings env request net) =
     (if SOLODIT_API_KEY env = [] then net else net @ [the_call env request])"
  by (simp add: searchSoloditFindings_def Let_def split: fetch_result.splits option.splits)

lemma get_finding_log:
  "snd (get_finding_by_id env kw net) =
     snd (searchSoloditFindings env (get_finding_request kw) net)"
  by (cases "searchSoloditFindings env (get_finding_request kw) net")
     (simp add: get_finding_by_id_def Let_def split: sum.splits list.splits)

lemma example_number_texts:
  "whole_number_text 0 = ''0''" "whole_number_text 3 = ''3''" "whole_number_text 4 = ''4''"
  by (simp_all add: whole_number_text_def decimal.simps digit_def)

lemma example_env_number_text: "number_text (example_env key response) = whole_number_text"
  by (simp add: example_env_def)

lemma decimal_examples: "decimal 429 = ''429''" "decimal 503 = ''503''"
  by (simp_all add: decimal.simps digit_def)

lemma example_env_key: "SOLODIT_API_KEY (example_env (Some ''sk-1'') r) = ''sk-1''"
  by (simp add: SOLODIT_API_KEY_def example_env_def or_string_def)

subsection \<open>A response that is not a success\<close>

lemma read_message_error: "read_message j = Inl e \<Longrightarrow> e = TypeError"
  by (cases j) simp_all

lemma to_text_error:
  "to_text ns j = Inl e \<Longrightarrow> e = TypeError"
  "elements_text ns js = Inl e \<Longrightarrow> e = TypeError"
  by (induction ns j and ns js rule: to_text_elements_text.induct)
     (auto split: sum.splits if_splits)

lemma error_detail_error: "error_detail ns m st = Inl e \<Longrightarrow> e = TypeError"
  by (auto simp: error_detail_def dest: to_text_error(1) split: option.splits if_splits)

lemma api_error_shape:
  "api_error ns response = TypeError \<or>
   (\<exists>detail. api_error ns response = ApiError (status response) detail)"
proof (cases "read_message (case json_any response of None \<Rightarrow> JObj [] | Some j \<Rightarrow> j)")
  case (Inl e)
  then show ?thesis
    by (simp add: api_error_def read_message_error)
next
  case (Inr message)
  show ?thesis
  proof (cases "error_detail ns message (statusText response)")
    case (Inl e)
    with Inr show ?thesis
      by (simp add: api_error_def error_detail_error)
  next
    case (Inr detail)
    with \<open>read_message (case json_any response of None \<Rightarrow> JObj [] | Some j \<Rightarrow> j) = Inr message\<close>
    show ?thesis
      by (simp add: api_error_def ApiError_def)
  qed
qed


text \<open>
  Claim C3, as the code has it. Let the key be configured and the remote answer with a
  response that is not a success. The invocation fails, whatever the body, and both tools
  pass the failure of \<open>searchSoloditFindings\<close> on as it is; the failure is an error
  that carries the status code, or a \<open>TypeError\<close>. The error carries the status code
  and, as its message part,
  \<^item> the status text of the response, when the body does not parse as JSON, when it
    parses to a value other than \<open>null\<close> that is not an object, and when it parses to
    an object that has no \<open>message\<close> field or a falsy one;
  \<^item> the text of the \<open>message\<close> field, when the body parses to an object whose
    \<open>message\<close> field is truthy and has a text: a string that is not empty is carried
    as it is.
  The body \<open>null\<close> and a message without a text are left out.
\<close>

theorem api_error_carries_status:
  assumes "SOLODIT_API_KEY env \<noteq> []"
    and "fetch env (the_call env request) = Resolved response"
    and "\<not> ok response"
  shows "(\<exists>e. searchSoloditFindings env request net = (Inl e, net @ [the_call env request]) \<and>
        (request = build_request args \<longrightarrow>
           search_findings env args net = (Inl e, net @ [the_call env request])) \<and>
        (request = get_finding_request kw \<longrightarrow>
           get_finding_by_id env kw net = (Inl e, net @ [the_call env request])) \<and>
        (e = TypeError \<or> (\<exists>detail. e = ApiError (status response) detail))) \<and>
    (json_any response = None \<longrightarrow>
      searchSoloditFindings env request net =
        (Inl (ApiError (status response) (statusText response)),
         net @ [the_call env request])) \<and>
    (json_any response = Some j \<and> j \<noteq> JNull \<and> \<not> is_object j \<longrightarrow>
      searchSoloditFindings env request net =
        (Inl (ApiError (status response) (statusText response)),
         net @ [the_call env request])) \<and>
    (json_any response = Some (JObj props) \<and> map_of props ''message'' = None \<longrightarrow>
      searchSoloditFindings env request net =
        (Inl (ApiError (status response) (statusText response)),
         net @ [the_call env request])) \<and>
    (json_any response = Some (JObj props) \<and> map_of props ''message'' = Some m \<and>
        \<not> truthy_json m \<longrightarrow>
      searchSoloditFindings env request net =
        (Inl (ApiError (status response) (statusText response)),
         net @ [the_call env request])) \<and>
    (json_any response = Some (JObj props) \<and> map_of props ''message'' = Some m \<and>
        truthy_json m \<and> to_text (number_text env) m = Inr t \<longrightarrow>
      searchSoloditFindings env request net =
        (Inl (ApiError (status response) t), net @ [the_call env request])) \<and>
    (json_any response = Some (JObj props) \<and> map_of props ''message'' = Some (JStr s) \<and>
        s \<noteq> [] \<longrightarrow>
      searchSoloditFindings env request net =
        (Inl (ApiError (status response) s), net @ [the_call env request]))"
proof -
  note r = search_not_ok [OF assms, of net]
  have shape: "api_error (number_text env) response = TypeError \<or>
      (\<exists>detail. api_error (number_text env) response = ApiError (status response) detail)"
    by (rule api_error_shape)
  have first: "\<exists>e. searchSoloditFindings env request net = (Inl e, net @ [the_call env request]) \<and>
        (request = build_request args \<longrightarrow>
           search_findings env args net = (Inl e, net @ [the_call env request])) \<and>
        (request = get_finding_request kw \<longrightarrow>
           get_finding_by_id env kw net = (Inl e, net @ [the_call env request])) \<and>
        (e = TypeError \<or> (\<exists>detail. e = ApiError (status response) detail))"
    using r shape search_findings_passes_error get_finding_passes_error by blast
  have none: "json_any response = None \<longrightarrow>
      api_error (number_text env) response = ApiError (status response) (statusText response)"
    by (simp add: api_error_def error_detail_def ApiError_def)
  have plain: "json_any response = Some j \<and> j \<noteq> JNull \<and> \<not> is_object j \<longrightarrow>
      api_error (number_text env) response = ApiError (status response) (statusText response)"
    by (cases j) (simp_all add: api_error_def error_detail_def ApiError_def)
  have absent: "json_any response = Some (JObj props) \<and> map_of props ''message'' = None \<longrightarrow>
      api_error (number_text env) response = ApiError (status response) (statusText response)"
    by (simp add: api_error_def error_detail_def ApiError_def)
  have falsy: "json_any response = Some (JObj props) \<and> map_of props ''message'' = Some m \<and>
        \<not> truthy_json m \<longrightarrow>
      api_error (number_text env) response = ApiError (status response) (statusText response)"
    by (simp add: api_error_def error_detail_def ApiError_def)
  have truthy: "json_any response = Some (JObj props) \<and> map_of props ''message'' = Some m \<and>
        truthy_json m \<and> to_text (number_text env) m = Inr t \<longrightarrow>
      api_error (number_text env) response = ApiError (status response) t"
    by (simp add: api_error_def error_detail_def ApiError_def)
  have carried: "json_any response = Some (JObj props) \<and> map_of props ''message'' = Some (JStr s) \<and>
        s \<noteq> [] \<longrightarrow>
      api_error (number_text env) response = ApiError (status response) s"
    by (simp add: api_error_def error_detail_def ApiError_def)
  from first none plain absent falsy truthy carried show ?thesis
    by (simp add: r)
qed

lemma error_response_facts:
  "SOLODIT_API_KEY (example_env (Some ''sk-1'') (error_response b)) \<noteq> []"
  "fetch (example_env (Some ''sk-1'') (error_response b))
     (the_call (example_env (Some ''sk-1'') (error_response b)) request) =
     Resolved (error_response b)"
  "\<not> ok (error_response b)"
  "json_any (error_response b) = b"
  "status (error_response b) = 429"
  "statusText (error_response b) = ''Too Many Requests''"
  by (simp_all add: example_env_key error_response_def) (simp add: example_env_def)

lemma ApiError_429: "ApiError 429 m = Error (''Solodit API error (429): '' @ m)"
  by (simp add: ApiError_def decimal_examples)

theorem api_error_carries_status_witness:
  "SOLODIT_API_KEY
     (example_env (Some ''sk-1'')
        (error_response (Some (JObj [(''message'', JStr ''rate limited'')])))) \<noteq> [] \<and>
   fetch (example_env (Some ''sk-1'')
            (error_response (Some (JObj [(''message'', JStr ''rate limited'')]))))
     (the_call (example_env (Some ''sk-1'')
                  (error_response (Some (JObj [(''message'', JStr ''rate limited'')]))))
        (build_request no_args)) =
     Resolved (error_response (Some (JObj [(''message'', JStr ''rate limited'')]))) \<and>
   \<not> ok (error_response (Some (JObj [(''message'', JStr ''rate limited'')]))) \<and>
   status (error_response (Some (JObj [(''message'', JStr ''rate limited'')]))) = 429 \<and>
   search_findings
     (example_env (Some ''sk-1'')
        (error_response (Some (JObj [(''message'', JStr ''rate limited'')]))))
     no_args [] =
     (Inl (Error ''Solodit API error (429): rate limited''),
      [the_call (example_env (Some ''sk-1'')
                   (error_response (Some (JObj [(''message'', JStr ''rate limited'')]))))
         (build_request no_args)]) \<and>
   fst (searchSoloditFindings (example_env (Some ''sk-1'') (error_response None))
          (build_request no_args) []) =
     Inl (Error ''Solodit API error (429): Too Many Requests'') \<and>
   fst (searchSoloditFindings
          (example_env (Some ''sk-1'') (error_response (Some (JStr ''gateway down''))))
          (build_request no_args) []) =
     Inl (Error ''Solodit API error (429): Too Many Requests'') \<and>
   fst (searchSoloditFindings
          (example_env (Some ''sk-1'') (error_response (Some (JObj [(''error'', JBool True)]))))
          (build_request no_args) []) =
     Inl (Error ''Solodit API error (429): Too Many Requests'') \<and>
   fst (searchSoloditFindings
          (example_env (Some ''sk-1'') (error_response (Some (JObj [(''message'', JNum 0)]))))
          (build_request no_args) []) =
     Inl (Error ''Solodit API error (429): Too Many Requests'') \<and>
   fst (searchSoloditFindings
          (example_env (Some ''sk-1'') (error_response (Some (JObj [(''message'', JNum 3)]))))
          (build_request no_args) []) =
     Inl (Error ''Solodit API error (429): 3'')"
proof -
  let ?req = "build_request no_args"
  let ?limited = "Some (JObj [(''message'', JStr ''rate limited'')])"
  let ?plain = "Some (JStr ''gateway down'')"
  let ?other = "Some (JObj [(''error'', JBool True)])"
  let ?zero = "Some (JObj [(''message'', JNum 0)])"
  let ?three = "Some (JObj [(''message'', JNum 3)])"
  have a: "searchSoloditFindings (example_env (Some ''sk-1'') (error_response ?limited)) ?req [] =
      (Inl (ApiError 429 ''rate limited''),
       [] @ [the_call (example_env (Some ''sk-1'') (error_response ?limited)) ?req])"
    using api_error_carries_status
      [OF error_response_facts(1) [of ?limited] error_response_facts(2) [of ?limited ?req]
          error_response_facts(3) [of ?limited],
        where net = "[]"
          and s = "''rate limited''" and props = "[(''message'', JStr ''rate limited'')]"]
    by (simp add: error_response_facts)
  from api_error_carries_status
      [OF error_response_facts(1) [of ?limited] error_response_facts(2) [of ?limited ?req]
          error_response_facts(3) [of ?limited],
        where net = "[]" and args = no_args] a
  have a': "search_findings (example_env (Some ''sk-1'') (error_response ?limited)) no_args [] =
      (Inl (ApiError 429 ''rate limited''),
       [] @ [the_call (example_env (Some ''sk-1'') (error_response ?limited)) ?req])"
    by auto
  have b: "searchSoloditFindings (example_env (Some ''sk-1'') (error_response None)) ?req [] =
      (Inl (ApiError 429 ''Too Many Requests''),
       [] @ [the_call (example_env (Some ''sk-1'') (error_response None)) ?req])"
    using api_error_carries_status
      [OF error_response_facts(1) [of None] error_response_facts(2) [of None ?req]
          error_response_facts(3) [of None],
        where net = "[]"]
    by (simp add: error_response_facts)
  have c: "searchSoloditFindings (example_env (Some ''sk-1'') (error_response ?plain)) ?req [] =
      (Inl (ApiError 429 ''Too Many Requests''),
       [] @ [the_call (example_env (Some ''sk-1'') (error_response ?plain)) ?req])"
    using api_error_carries_status
      [OF error_response_facts(1) [of ?plain] error_response_facts(2) [of ?plain ?req]
          error_response_facts(3) [of ?plain],
        where net = "[]" and j = "JStr ''gateway down''"]
    by (simp add: error_response_facts)
  have d: "searchSoloditFindings (example_env (Some ''sk-1'') (error_response ?other)) ?req [] =
      (Inl (ApiError 429 ''Too Many Requests''),
       [] @ [the_call (example_env (Some ''sk-1'') (error_response ?other)) ?req])"
    using api_error_carries_status
      [OF error_response_facts(1) [of ?other] error_response_facts(2) [of ?other ?req]
          error_response_facts(3) [of ?other],
        where net = "[]" and props = "[(''error'', JBool True)]"]
    by (simp add: error_response_facts)
  have e: "searchSoloditFindings (example_env (Some ''sk-1'') (error_response ?zero)) ?req [] =
      (Inl (ApiError 429 ''Too Many Requests''),
       [] @ [the_call (example_env (Some ''sk-1'') (error_response ?zero)) ?req])"
    using api_error_carries_status
      [OF error_response_facts(1) [of ?zero] error_response_facts(2) [of ?zero ?req]
          error_response_facts(3) [of ?zero],
        where net = "[]" and props = "[(''message'', JNum 0)]" and m = "JNum 0"]
    by (simp add: error_response_facts)
  have f: "searchSoloditFindings (example_env (Some ''sk-1'') (error_response ?three)) ?req [] =
      (Inl (ApiError 429 ''3''),
       [] @ [the_call (example_env (Some ''sk-1'') (error_response ?three)) ?req])"
    using api_error_carries_status
      [OF error_response_facts(1) [of ?three] error_response_facts(2) [of ?three ?req]
          error_response_facts(3) [of ?three],
        where net = "[]"
          and props = "[(''message'', JNum 3)]" and m = "JNum 3" and t = "''3''"]
    by (simp add: error_response_facts example_env_number_text example_number_texts)
  from a' b c d e f error_response_facts(1,3,5) [of ?limited]
    error_response_facts(2) [of ?limited ?req]
  show ?thesis
    by (simp add: ApiError_429)
qed

text \<open>
  The claim as the specification words it fails in three places. A body that does not
  parse leaves the status text of the response as the message part, not an empty
  message; a \<open>message\<close> field that is the empty string is not carried, the status text
  is; and on the body \<open>null\<close> the invocation fails with a \<open>TypeError\<close> that carries
  no status code.
\<close>

theorem error_message_counterexample:
  "json_any unavailable_response = None \<and>
   fst (searchSoloditFindings (example_env (Some ''sk-1'') unavailable_response)
          (build_request no_args) []) =
     Inl (Error ''Solodit API error (503): Service Unavailable'') \<and>
   fst (searchSoloditFindings
          (example_env (Some ''sk-1'') (error_response (Some (JObj [(''message'', JStr [])]))))
          (build_request no_args) []) =
     Inl (Error ''Solodit API error (429): Too Many Requests'') \<and>
   fst (searchSoloditFindings (example_env (Some ''sk-1'') null_body_response)
          (build_request no_args) []) =
     Inl TypeError"
proof -
  let ?env = "example_env (Some ''sk-1'') unavailable_response"
  let ?env' = "example_env (Some ''sk-1'') null_body_response"
  let ?blank = "error_response (Some (JObj [(''message'', JStr [])]))"
  have k: "SOLODIT_API_KEY ?env \<noteq> []" and k': "SOLODIT_API_KEY ?env' \<noteq> []"
    by (simp_all add: example_env_key)
  have f: "fetch ?env (the_call ?env (build_request no_args)) = Resolved unavailable_response"
    and f': "fetch ?env' (the_call ?env' (build_request no_args)) = Resolved null_body_response"
    by (simp_all add: example_env_def)
  have n: "\<not> ok unavailable_response" and n': "\<not> ok null_body_response"
    by (simp_all add: unavailable_response_def null_body_response_def)
  have a: "api_error (number_text ?env) unavailable_response =
      Error ''Solodit API error (503): Service Unavailable''"
    by (simp add: api_error_def error_detail_def unavailable_response_def decimal_examples)
  have b: "api_error (number_text ?env') null_body_response = TypeError"
    by (simp add: api_error_def null_body_response_def)
  have c: "api_error (number_text (example_env (Some ''sk-1'') ?blank)) ?blank =
      Error ''Solodit API error (429): Too Many Requests''"
    by (simp add: api_error_def error_detail_def error_response_def decimal_examples)
  from a b c show ?thesis
    by (simp add: search_not_ok [OF k f n] search_not_ok [OF k' f' n']
        search_not_ok [OF error_response_facts(1,2,3)])
      (simp add: unavailable_response_def)
qed

subsection \<open>A missing key\<close>

text \<open>
  Claim C5. When the environment variable of the key is absent or is the empty string,
  \<open>searchSoloditFindings\<close> and both tools fail with the error of the missing key, and
  the log of the calls that went out is the one they were given: no call was made.
\<close>

theorem missing_key_fails_before_network:
  assumes "env_SOLODIT_API_KEY env = None \<or> env_SOLODIT_API_KEY env = Some []"
  shows "searchSoloditFindings env request net = (Inl (Error key_missing_message), net) \<and>
     search_findings env args net = (Inl (Error key_missing_message), net) \<and>
     get_finding_by_id env kw net = (Inl (Error key_missing_message), net)"
proof -
  from assms have k: "SOLODIT_API_KEY env = []"
    by (auto simp: SOLODIT_API_KEY_def or_string_def)
  show ?thesis
    by (intro conjI search_without_key [OF k]
        search_findings_passes_error [OF search_without_key [OF k]]
        get_finding_passes_error [OF search_without_key [OF k]])
qed

theorem missing_key_fails_before_network_witness:
  "(env_SOLODIT_API_KEY (example_env None no_findings_response) = None \<or>
    env_SOLODIT_API_KEY (example_env None no_findings_response) = Some []) \<and>
   search_findings (example_env None no_findings_response) no_args [] =
     (Inl (Error key_missing_message), []) \<and>
   (env_SOLODIT_API_KEY (example_env (Some []) no_findings_response) = None \<or>
    env_SOLODIT_API_KEY (example_env (Some []) no_findings_response) = Some []) \<and>
   get_finding_by_id (example_env (Some []) no_findings_response) ''vault-reentrancy'' [] =
     (Inl (Error key_missing_message), [])"
proof -
  have a: "env_SOLODIT_API_KEY (example_env None no_findings_response) = None \<or>
    env_SOLODIT_API_KEY (example_env None no_findings_response) = Some []"
    by (simp add: example_env_def)
  have b: "env_SOLODIT_API_KEY (example_env (Some []) no_findings_response) = None \<or>
    env_SOLODIT_API_KEY (example_env (Some []) no_findings_response) = Some []"
    by (simp add: example_env_def)
  from a b missing_key_fails_before_network [OF a] missing_key_fails_before_network [OF b]
  show ?thesis by blast
qed

subsection \<open>The lookup of one finding\<close>

text \<open>
  Claim C7. For every keywords string, the only call \<open>get_finding_by_id\<close> sends
  carries the request with page 1, page size 1 and a \<open>filters\<close> object whose one key
  is \<open>keywords\<close>, holding the caller's string; it sends that call once when the key is
  configured (and none otherwise). Whenever the response to it has no findings, the output
  is the fixed message followed by the caller's string, and nothing else.
\<close>

theorem lookup_request_and_not_found:
  "page (get_finding_request kw) = Some 1 \<and>
   pageSize (get_finding_request kw) = Some 1 \<and>
   filters (get_finding_request kw) = Some (empty_filters \<lparr> keywords := Some kw \<rparr>) \<and>
   Object_keys (empty_filters \<lparr> keywords := Some kw \<rparr>) = [''keywords''] \<and>
   body (the_call env (get_finding_request kw)) = get_finding_request kw \<and>
   snd (get_finding_by_id env kw net) =
     (if SOLODIT_API_KEY env = [] then net
      else net @ [the_call env (get_finding_request kw)]) \<and>
   (SOLODIT_API_KEY env \<noteq> [] \<and>
    fetch env (the_call env (get_finding_request kw)) = Resolved response \<and>
    ok response \<and> json_typed response = Some r \<and> findings r = [] \<longrightarrow>
      get_finding_by_id env kw net =
        (Inr (''No finding found with ID or slug: '' @ kw),
         net @ [the_call env (get_finding_request kw)]))"
proof (intro conjI impI)
  let ?req = "get_finding_request kw"
  show "page ?req = Some 1" "pageSize ?req = Some 1"
    "filters ?req = Some (empty_filters \<lparr> keywords := Some kw \<rparr>)"
    by (simp_all add: get_finding_request_def)
  show "Object_keys (empty_filters \<lparr> keywords := Some kw \<rparr>) = [''keywords'']"
    by (simp add: Object_keys_def empty_filters_def own_key_def)
  show "snd (get_finding_by_id env kw net) =
       (if SOLODIT_API_KEY env = [] then net else net @ [the_call env ?req])"
    by (simp add: get_finding_log search_log)
  show "body (the_call env ?req) = ?req"
    by (simp add: the_call_def)
  assume "SOLODIT_API_KEY env \<noteq> [] \<and> fetch env (the_call env ?req) = Resolved response \<and>
        ok response \<and> json_typed response = Some r \<and> findings r = []"
  then have "searchSoloditFindings env ?req net = (Inr r, net @ [the_call env ?req])"
    and "findings r = []"
    by (simp_all add: search_ok)
  then show "get_finding_by_id env kw net =
          (Inr (''No finding found with ID or slug: '' @ kw), net @ [the_call env ?req])"
    by (simp add: get_finding_by_id_def Let_def not_found_def)
qed

theorem lookup_request_and_not_found_witness:
  "SOLODIT_API_KEY (example_env (Some ''sk-1'') no_findings_response) \<noteq> [] \<and>
   fetch (example_env (Some ''sk-1'') no_findings_response)
     (the_call (example_env (Some ''sk-1'') no_findings_response)
        (get_finding_request ''nonexistent-slug'')) =
     Resolved no_findings_response \<and>
   ok no_findings_response \<and> json_typed no_findings_response = Some no_findings \<and>
   findings no_findings = [] \<and>
   fst (get_finding_by_id (example_env (Some ''sk-1'') no_findings_response)
          ''nonexistent-slug'' []) =
     Inr ''No finding found with ID or slug: nonexistent-slug''"
proof -
  let ?env = "example_env (Some ''sk-1'') no_findings_response"
  have k: "SOLODIT_API_KEY ?env \<noteq> []"
    by (simp add: example_env_key)
  have f: "fetch ?env (the_call ?env (get_finding_request ''nonexistent-slug'')) =
      Resolved no_findings_response"
    by (simp add: example_env_def)
  have o: "ok no_findings_response" and j: "json_typed no_findings_response = Some no_findings"
    by (simp_all add: no_findings_response_def)
  have e: "findings no_findings = []"
    by (simp add: no_findings_def)
  from lookup_request_and_not_found
    [where kw = "''nonexistent-slug''" and env = "?env" and net = "[]"
       and response = no_findings_response and r = no_findings] k f o j e
  have "get_finding_by_id ?env ''nonexistent-slug'' [] =
      (Inr (''No finding found with ID or slug: '' @ ''nonexistent-slug''),
       [] @ [the_call ?env (get_finding_request ''nonexistent-slug'')])"
    by blast
  then have "fst (get_finding_by_id ?env ''nonexistent-slug'' []) =
      Inr ''No finding found with ID or slug: nonexistent-slug''"
    by simp
  with k f o j e show ?thesis by blast
qed

section \<open>The field tables of the two views\<close>

lemma not_white_t: "\<not> is_white CHR ''t''"
  by (simp add: is_white_def white_space_def)

lemma trim_headed:
  assumes "s \<noteq> []" and "\<not> is_white (hd s)" and "\<not> is_white (last s)"
  shows "trim (newline # s @ t) = s @ trim_end t"
proof -
  from assms(1) obtain c u where s: "s = c # u" by (cases s) auto
  with assms(2) have front: "dropWhile is_white (newline # s @ t) = s @ t"
    by (simp add: is_white_newline)
  from assms(1) have "rev s \<noteq> []" by simp
  then obtain d v where r: "rev s = d # v" by (cases "rev s") auto
  from assms(1) have "hd (rev s) = last s" by (simp add: hd_rev)
  with assms(3) r have "\<not> is_white d" by simp
  with r have "dropWhile is_white (rev s) = rev s" by simp
  then have "dropWhile is_white (rev t @ rev s) = dropWhile is_white (rev t) @ rev s"
    by (cases "\<forall>x \<in> set (rev t). is_white x") (simp_all add: dropWhile_append)
  with front show ?thesis by (simp add: trim_def trim_end_def)
qed

lemma detail_rows_present:
  assumes "issues_issue_finders f = Some fs" and "issues_issuetagscore f = Some ts"
  shows "detail_rows ns f =
     Inr (detail_field_rows ns f (join '', '' (map (\<lambda>f. handle (wardens_warden f)) fs))
                                 (join '', '' (map (\<lambda>t. tag_title (tags_tag t)) ts)))"
  using assms by (simp add: detail_rows_def tags_text_def finders_text_def bind_result_def)

text \<open>
  The text of the detail view for a finding whose lists are present: the heading, the
  field table, the rule and the heading of the content, then the content without the
  white space at its end.
\<close>

lemma formatDetail_text:
  assumes "detail_rows ns f = Inr rows"
  shows "formatDetail ns f =
     Inr (template ([''# '' @ title f, []] @ rows @ [[], ''---'', [], ''## Content'']) @
          trim_end ([newline, newline] @ content f @ [newline]))"
proof -
  let ?h = "''# '' @ title f"
  let ?head = "template ([?h, []] @ rows @ [[], ''---'', [], ''## Content''])"
  have "template ([[], ?h, []] @ rows @ [[], ''---'', [], ''## Content'', [], content f, []]) =
        join [newline] (([] # [?h, []] @ rows @ [[], ''---'', [], ''## Content'']) @
                        [[], content f, []])"
    by (simp add: template_def)
  also have "\<dots> = join [newline] ([] # [?h, []] @ rows @ [[], ''---'', [], ''## Content'']) @
        [newline] @ join [newline] [[], content f, []]"
    by (rule join_append) simp_all
  also have "join [newline] ([] # [?h, []] @ rows @ [[], ''---'', [], ''## Content'']) =
        [] @ [newline] @ join [newline] ([?h, []] @ rows @ [[], ''---'', [], ''## Content''])"
    by (rule join_Cons) simp
  finally have whole:
    "template ([[], ?h, []] @ rows @ [[], ''---'', [], ''## Content'', [], content f, []]) =
     newline # ?head @ ([newline, newline] @ content f @ [newline])"
    by (simp add: template_def)
  have "?head = join [newline] (?h # ([] # rows @ [[], ''---'', []]) @ [''## Content''])"
    by (simp add: template_def)
  also have "\<dots> = ?h @ [newline] @ join [newline] ([] # rows @ [[], ''---'', []]) @
      [newline] @ ''## Content''"
    by (rule join_first_last) simp
  finally have shape: "?head = ?h @ [newline] @ join [newline] ([] # rows @ [[], ''---'', []]) @
      [newline] @ ''## Content''" .
  have ne: "?head \<noteq> []" and h: "hd ?head = CHR ''#''" and l: "last ?head = CHR ''t''"
    unfolding shape by simp_all
  have t: "trim (newline # ?head @ ([newline, newline] @ content f @ [newline])) =
      ?head @ trim_end ([newline, newline] @ content f @ [newline])"
    by (rule trim_headed [OF ne]) (simp_all only: h l not_white_hash not_white_t not_False_eq_True)
  have "formatDetail ns f =
      Inr (trim (template ([[], ?h, []] @ rows @
                           [[], ''---'', [], ''## Content'', [], content f, []])))"
    using assms by (simp add: formatDetail_def bind_result_def)
  then show ?thesis
    by (simp only: whole t)
qed

lemma lookup_first_finding:
  assumes "SOLODIT_API_KEY env \<noteq> []"
    and "fetch env (the_call env (get_finding_request kw)) = Resolved response"
    and "ok response" and "json_typed response = Some r" and "findings r = f # rest"
  shows "get_finding_by_id env kw net =
     (formatDetail (number_text env) f, net @ [the_call env (get_finding_request kw)])"
  using search_ok [OF assms(1-4), of net] assms(5)
  by (simp add: get_finding_by_id_def Let_def)

lemma missing_list_both_fail:
  assumes "issues_issue_finders f = None \<or> issues_issuetagscore f = None"
  shows "formatFinding ns f = Inl TypeError" and "formatDetail ns f = Inl TypeError"
  using assms
  by (auto simp: formatFinding_def formatDetail_def list_rows_def detail_rows_def
      tags_text_def finders_text_def bind_result_def split: option.splits)

text \<open>
  Claim C8, as the code has it. Let \<open>get_finding_by_id\<close> receive a response whose
  first finding is \<open>f\<close>. When the two lists of \<open>f\<close> are present, the block that
  \<open>formatFinding\<close> renders for \<open>f\<close> and the text that \<open>get_finding_by_id\<close> returns
  hold the same rows \<open>**ID:**\<close> and \<open>**Slug:**\<close> and the same eight rows from
  \<open>**Protocol:**\<close> to \<open>**Source:**\<close>, with the same values in the same order; the
  detail view has one more row, \<open>**Impact:**\<close>, between the row of the slug and the
  row of the protocol. When a list is missing, both fail with a \<open>TypeError\<close>.
\<close>

theorem detail_view_adds_impact_row:
  assumes "SOLODIT_API_KEY env \<noteq> []"
    and "fetch env (the_call env (get_finding_request kw)) = Resolved response"
    and "ok response" and "json_typed response = Some r" and "findings r = f # rest"
  shows "(issues_issue_finders f = Some fs \<and> issues_issuetagscore f = Some ts \<longrightarrow>
      (\<exists>top more.
         top = [''**ID:** '' @ finding_id f, ''**Slug:** '' @ slug f] \<and>
         more =
           [''**Protocol:** '' @ or_string (protocol_name f) ''N/A'',
            ''**Audit Firm:** '' @ or_string (firm_name f) ''N/A'',
            ''**Quality Score:** '' @ number_text env (quality_score f) @ ''/5'',
            ''**Rarity Score:** '' @ number_text env (general_score f) @ ''/5'',
            ''**Report Date:** '' @ or_string (report_date f) ''N/A'',
            ''**Finders:** '' @
               or_string (Some (join '', '' (map (\<lambda>x. handle (wardens_warden x)) fs))) ''N/A'' @
               '' ('' @ number_text env (finders_count f) @ '' total)'',
            ''**Tags:** '' @
               or_string (Some (join '', '' (map (\<lambda>x. tag_title (tags_tag x)) ts))) ''N/A'',
            ''**Source:** '' @ or_string (source_link f) ''N/A''] \<and>
         list_all2 prefix field_labels (top @ more) \<and>
         list_all2 prefix detail_labels
           (top @ [''**Impact:** '' @ impact_text (finding_impact f)] @ more) \<and>
         formatFinding (number_text env) f =
           Inr (template ([list_heading f, []] @ top @ more @
                          [[], body_excerpt f, [], ''---''])) \<and>
         get_finding_by_id env kw net =
           (Inr (template ([''# '' @ title f, []] @ top @
                           [''**Impact:** '' @ impact_text (finding_impact f)] @ more @
                           [[], ''---'', [], ''## Content'']) @
                 trim_end ([newline, newline] @ content f @ [newline])),
            net @ [the_call env (get_finding_request kw)]))) \<and>
    (issues_issue_finders f = None \<or> issues_issuetagscore f = None \<longrightarrow>
       formatFinding (number_text env) f = Inl TypeError \<and>
       get_finding_by_id env kw net =
         (Inl TypeError, net @ [the_call env (get_finding_request kw)]))"
proof (intro conjI impI)
  assume p: "issues_issue_finders f = Some fs \<and> issues_issuetagscore f = Some ts"
  let ?fj = "join '', '' (map (\<lambda>x. handle (wardens_warden x)) fs)"
  let ?tj = "join '', '' (map (\<lambda>x. tag_title (tags_tag x)) ts)"
  let ?top = "[''**ID:** '' @ finding_id f, ''**Slug:** '' @ slug f]"
  let ?more = "[''**Protocol:** '' @ or_string (protocol_name f) ''N/A'',
            ''**Audit Firm:** '' @ or_string (firm_name f) ''N/A'',
            ''**Quality Score:** '' @ number_text env (quality_score f) @ ''/5'',
            ''**Rarity Score:** '' @ number_text env (general_score f) @ ''/5'',
            ''**Report Date:** '' @ or_string (report_date f) ''N/A'',
            ''**Finders:** '' @ or_string (Some ?fj) ''N/A'' @
               '' ('' @ number_text env (finders_count f) @ '' total)'',
            ''**Tags:** '' @ or_string (Some ?tj) ''N/A'',
            ''**Source:** '' @ or_string (source_link f) ''N/A'']"
  let ?impact = "''**Impact:** '' @ impact_text (finding_impact f)"
  from p have lr: "list_rows (number_text env) f = Inr (?top @ ?more)"
    by (simp add: list_rows_present field_rows_def)
  from p have dr: "detail_rows (number_text env) f = Inr (?top @ [?impact] @ ?more)"
    by (simp add: detail_rows_present detail_field_rows_def)
  have a: "formatFinding (number_text env) f =
      Inr (template ([list_heading f, []] @ ?top @ ?more @ [[], body_excerpt f, [], ''---'']))"
    using formatFinding_text [OF lr] by simp
  have b: "get_finding_by_id env kw net =
      (Inr (template ([''# '' @ title f, []] @ ?top @ [?impact] @ ?more @
                      [[], ''---'', [], ''## Content'']) @
            trim_end ([newline, newline] @ content f @ [newline])),
       net @ [the_call env (get_finding_request kw)])"
    using formatDetail_text [OF dr] lookup_first_finding [OF assms, of net] by simp
  have c: "list_all2 prefix field_labels (?top @ ?more)"
    by (simp add: field_labels_def)
  have d: "list_all2 prefix detail_labels (?top @ [?impact] @ ?more)"
    by (simp add: detail_labels_def)
  from a b c d show "\<exists>top more.
         top = [''**ID:** '' @ finding_id f, ''**Slug:** '' @ slug f] \<and>
         more =
           [''**Protocol:** '' @ or_string (protocol_name f) ''N/A'',
            ''**Audit Firm:** '' @ or_string (firm_name f) ''N/A'',
            ''**Quality Score:** '' @ number_text env (quality_score f) @ ''/5'',
            ''**Rarity Score:** '' @ number_text env (general_score f) @ ''/5'',
            ''**Report Date:** '' @ or_string (report_date f) ''N/A'',
            ''**Finders:** '' @
               or_string (Some (join '', '' (map (\<lambda>x. handle (wardens_warden x)) fs))) ''N/A'' @
               '' ('' @ number_text env (finders_count f) @ '' total)'',
            ''**Tags:** '' @
               or_string (Some (join '', '' (map (\<lambda>x. tag_title (tags_tag x)) ts))) ''N/A'',
            ''**Source:** '' @ or_string (source_link f) ''N/A''] \<and>
         list_all2 prefix field_labels (top @ more) \<and>
         list_all2 prefix detail_labels
           (top @ [''**Impact:** '' @ impact_text (finding_impact f)] @ more) \<and>
         formatFinding (number_text env) f =
           Inr (template ([list_heading f, []] @ top @ more @
                          [[], body_excerpt f, [], ''---''])) \<and>
         get_finding_by_id env kw net =
           (Inr (template ([''# '' @ title f, []] @ top @
                           [''**Impact:** '' @ impact_text (finding_impact f)] @ more @
                           [[], ''---'', [], ''## Content'']) @
                 trim_end ([newline, newline] @ content f @ [newline])),
            net @ [the_call env (get_finding_request kw)])"
    by blast
next
  assume m: "issues_issue_finders f = None \<or> issues_issuetagscore f = None"
  show "formatFinding (number_text env) f = Inl TypeError"
    by (rule missing_list_both_fail(1) [OF m])
  show "get_finding_by_id env kw net =
      (Inl TypeError, net @ [the_call env (get_finding_request kw)])"
    using lookup_first_finding [OF assms, of net] missing_list_both_fail(2) [OF m] by simp
qed


lemma trim_end_example:
  "trim_end [newline, newline, CHR ''a'', CHR ''b'', CHR ''c'', newline] =
     [newline, newline, CHR ''a'', CHR ''b'', CHR ''c'']"
  by (simp add: trim_end_def is_white_def white_space_def newline_def)

theorem detail_view_adds_impact_row_witness:
  "SOLODIT_API_KEY (example_env (Some ''sk-1'') one_finding_response) \<noteq> [] \<and>
   fetch (example_env (Some ''sk-1'') one_finding_response)
     (the_call (example_env (Some ''sk-1'') one_finding_response)
        (get_finding_request ''vault-reentrancy'')) =
     Resolved one_finding_response \<and>
   ok one_finding_response \<and> json_typed one_finding_response = Some one_finding \<and>
   findings one_finding = example_finding # [] \<and>
   issues_issue_finders example_finding = Some [] \<and>
   issues_issuetagscore example_finding = Some [] \<and>
   formatFinding whole_number_text example_finding =
     Inr (template ([''## [HIGH] Reentrancy in vault'', []] @
                    [''**ID:** 101'', ''**Slug:** vault-reentrancy''] @
                    [''**Protocol:** N/A'', ''**Audit Firm:** Cyfrin'',
                     ''**Quality Score:** 4/5'', ''**Rarity Score:** 3/5'',
                     ''**Report Date:** N/A'', ''**Finders:** N/A (0 total)'',
                     ''**Tags:** N/A'', ''**Source:** N/A''] @
                    [[], ''abc...'', [], ''---''])) \<and>
   fst (get_finding_by_id (example_env (Some ''sk-1'') one_finding_response)
          ''vault-reentrancy'' []) =
     Inr (template ([''# Reentrancy in vault'', []] @
                    [''**ID:** 101'', ''**Slug:** vault-reentrancy''] @
                    [''**Impact:** HIGH''] @
                    [''**Protocol:** N/A'', ''**Audit Firm:** Cyfrin'',
                     ''**Quality Score:** 4/5'', ''**Rarity Score:** 3/5'',
                     ''**Report Date:** N/A'', ''**Finders:** N/A (0 total)'',
                     ''**Tags:** N/A'', ''**Source:** N/A''] @
                    [[], ''---'', [], ''## Content'']) @
          [newline, newline] @ ''abc'')"
proof -
  let ?env = "example_env (Some ''sk-1'') one_finding_response"
  have k: "SOLODIT_API_KEY ?env \<noteq> []"
    by (simp add: example_env_key)
  have f: "fetch ?env (the_call ?env (get_finding_request ''vault-reentrancy'')) =
      Resolved one_finding_response"
    by (simp add: example_env_def)
  have o: "ok one_finding_response" and j: "json_typed one_finding_response = Some one_finding"
    by (simp_all add: one_finding_response_def)
  have e: "findings one_finding = example_finding # []"
    by (simp add: one_finding_def)
  have l: "issues_issue_finders example_finding = Some [] \<and>
      issues_issuetagscore example_finding = Some []"
    by (simp add: example_finding_def)
  have v: "finding_id example_finding = ''101''" "slug example_finding = ''vault-reentrancy''"
    "title example_finding = ''Reentrancy in vault''" "content example_finding = ''abc''"
    "or_string (protocol_name example_finding) ''N/A'' = ''N/A''"
    "or_string (firm_name example_finding) ''N/A'' = ''Cyfrin''"
    "or_string (report_date example_finding) ''N/A'' = ''N/A''"
    "or_string (source_link example_finding) ''N/A'' = ''N/A''"
    "or_string (Some (join '', '' (map (\<lambda>x. handle (wardens_warden x)) []))) ''N/A'' = ''N/A''"
    "or_string (Some (join '', '' (map (\<lambda>x. tag_title (tags_tag x)) []))) ''N/A'' = ''N/A''"
    "number_text ?env (quality_score example_finding) = ''4''"
    "number_text ?env (general_score example_finding) = ''3''"
    "number_text ?env (finders_count example_finding) = ''0''"
    "impact_text (finding_impact example_finding) = ''HIGH''"
    "list_heading example_finding = ''## [HIGH] Reentrancy in vault''"
    "body_excerpt example_finding = ''abc...''"
    by (simp_all add: example_finding_def or_string_def example_env_number_text
        example_number_texts list_heading_def body_excerpt_def)
  from detail_view_adds_impact_row [OF k f o j e, of "[]" "[]" "[]"] l
  have "formatFinding (number_text ?env) example_finding =
     Inr (template ([''## [HIGH] Reentrancy in vault'', []] @
                    [''**ID:** 101'', ''**Slug:** vault-reentrancy''] @
                    [''**Protocol:** N/A'', ''**Audit Firm:** Cyfrin'',
                     ''**Quality Score:** 4/5'', ''**Rarity Score:** 3/5'',
                     ''**Report Date:** N/A'', ''**Finders:** N/A (0 total)'',
                     ''**Tags:** N/A'', ''**Source:** N/A''] @
                    [[], ''abc...'', [], ''---''])) \<and>
   get_finding_by_id ?env ''vault-reentrancy'' [] =
     (Inr (template ([''# Reentrancy in vault'', []] @
                    [''**ID:** 101'', ''**Slug:** vault-reentrancy''] @
                    [''**Impact:** HIGH''] @
                    [''**Protocol:** N/A'', ''**Audit Firm:** Cyfrin'',
                     ''**Quality Score:** 4/5'', ''**Rarity Score:** 3/5'',
                     ''**Report Date:** N/A'', ''**Finders:** N/A (0 total)'',
                     ''**Tags:** N/A'', ''**Source:** N/A''] @
                    [[], ''---'', [], ''## Content'']) @
          trim_end ([newline, newline] @ ''abc'' @ [newline])),
      [] @ [the_call ?env (get_finding_request ''vault-reentrancy'')])"
    unfolding v by auto
  then show ?thesis
    using k f o j e l
    by (simp add: example_env_number_text trim_end_example)
qed

text \<open>
  The claim as the specification words it fails: the two views of the example do not
  hold the same rows. The text of the detail view has the row \<open>**Impact:** HIGH\<close>,
  which the block of the list view has not, so its table has eleven rows and the other
  ten.
\<close>

theorem field_tables_differ_counterexample:
  "formatFinding whole_number_text example_finding =
     Inr (template
       [''## [HIGH] Reentrancy in vault'', [],
        ''**ID:** 101'', ''**Slug:** vault-reentrancy'',
        ''**Protocol:** N/A'', ''**Audit Firm:** Cyfrin'',
        ''**Quality Score:** 4/5'', ''**Rarity Score:** 3/5'',
        ''**Report Date:** N/A'', ''**Finders:** N/A (0 total)'',
        ''**Tags:** N/A'', ''**Source:** N/A'',
        [], ''abc...'', [], ''---'']) \<and>
   fst (get_finding_by_id (example_env (Some ''sk-1'') one_finding_response)
          ''vault-reentrancy'' []) =
     Inr (template
       [''# Reentrancy in vault'', [],
        ''**ID:** 101'', ''**Slug:** vault-reentrancy'', ''**Impact:** HIGH'',
        ''**Protocol:** N/A'', ''**Audit Firm:** Cyfrin'',
        ''**Quality Score:** 4/5'', ''**Rarity Score:** 3/5'',
        ''**Report Date:** N/A'', ''**Finders:** N/A (0 total)'',
        ''**Tags:** N/A'', ''**Source:** N/A'',
        [], ''---'', [], ''## Content'', [], ''abc'']) \<and>
   detail_rows whole_number_text example_finding \<noteq> list_rows whole_number_text example_finding \<and>
   map_sum id length (detail_rows whole_number_text example_finding) = Inr 11 \<and>
   map_sum id length (list_rows whole_number_text example_finding) = Inr 10"
proof -
  let ?env = "example_env (Some ''sk-1'') one_finding_response"
  have l: "issues_issue_finders example_finding = Some []"
    "issues_issuetagscore example_finding = Some []"
    by (simp_all add: example_finding_def)
  have a: "formatFinding whole_number_text example_finding =
     Inr (template
       [''## [HIGH] Reentrancy in vault'', [],
        ''**ID:** 101'', ''**Slug:** vault-reentrancy'',
        ''**Protocol:** N/A'', ''**Audit Firm:** Cyfrin'',
        ''**Quality Score:** 4/5'', ''**Rarity Score:** 3/5'',
        ''**Report Date:** N/A'', ''**Finders:** N/A (0 total)'',
        ''**Tags:** N/A'', ''**Source:** N/A'',
        [], ''abc...'', [], ''---''])"
    using formatFinding_text [OF list_rows_present [OF l], of whole_number_text]
    by (simp add: field_rows_def example_finding_def or_string_def example_number_texts
        list_heading_def body_excerpt_def)
  have k: "SOLODIT_API_KEY ?env \<noteq> []"
    by (simp add: example_env_key)
  have f: "fetch ?env (the_call ?env (get_finding_request ''vault-reentrancy'')) =
      Resolved one_finding_response"
    by (simp add: example_env_def)
  have o: "ok one_finding_response" and j: "json_typed one_finding_response = Some one_finding"
    by (simp_all add: one_finding_response_def)
  have e: "findings one_finding = example_finding # []"
    by (simp add: one_finding_def)
  have "formatDetail whole_number_text example_finding =
     Inr (template
       [''# Reentrancy in vault'', [],
        ''**ID:** 101'', ''**Slug:** vault-reentrancy'', ''**Impact:** HIGH'',
        ''**Protocol:** N/A'', ''**Audit Firm:** Cyfrin'',
        ''**Quality Score:** 4/5'', ''**Rarity Score:** 3/5'',
        ''**Report Date:** N/A'', ''**Finders:** N/A (0 total)'',
        ''**Tags:** N/A'', ''**Source:** N/A'',
        [], ''---'', [], ''## Content'', [], ''abc''])"
    using formatDetail_text [OF detail_rows_present [OF l], of whole_number_text]
    by (simp add: detail_field_rows_def example_finding_def or_string_def
        example_number_texts trim_end_def is_white_def white_space_def newline_def
        template_def)
  with lookup_first_finding [OF k f o j e, of "[]"]
  have b: "fst (get_finding_by_id ?env ''vault-reentrancy'' []) =
     Inr (template
       [''# Reentrancy in vault'', [],
        ''**ID:** 101'', ''**Slug:** vault-reentrancy'', ''**Impact:** HIGH'',
        ''**Protocol:** N/A'', ''**Audit Firm:** Cyfrin'',
        ''**Quality Score:** 4/5'', ''**Rarity Score:** 3/5'',
        ''**Report Date:** N/A'', ''**Finders:** N/A (0 total)'',
        ''**Tags:** N/A'', ''**Source:** N/A'',
        [], ''---'', [], ''## Content'', [], ''abc''])"
    by (simp add: example_env_number_text)
  have c: "detail_rows whole_number_text example_finding \<noteq>
        list_rows whole_number_text example_finding \<and>
      map_sum id length (detail_rows whole_number_text example_finding) = Inr 11 \<and>
      map_sum id length (list_rows whole_number_text example_finding) = Inr 10"
    by (simp add: detail_rows_def list_rows_def tags_text_def finders_text_def
        bind_result_def field_rows_def detail_field_rows_def example_finding_def)
  from a b c show ?thesis by blast
qed


end
